theory Spec2Isabelle
  imports Complex_Main "HOL-Library.Sublist" "HOL-Library.Log_Nat"
begin

section \<open>The retry unit: data model\<close>

text \<open>
  The embedding follows the class \<open>Retry\<close> of \<open>retry.unit.ts\<close>. A JavaScript number is
  the real it denotes; every field of the configuration, \<open>maxAttempts\<close> too, is such a
  number, and the arithmetic of \<open>calculateDelay\<close> rounds each result to the nearest
  double (section on double-precision arithmetic). The attempt counter and the
  statistics counters only ever hold integers that are counted up from 0 or 1; they are
  \<open>int\<close>s, exact as the doubles are below \<open>2^53\<close>. \<open>NaN\<close> and the infinities are outside
  the model. Strings are \<open>char list\<close>s. An optional field (\<open>x?: T\<close>, possibly
  \<open>undefined\<close>) is a \<open>T option\<close>. A call runs alone on its instance, and every
  invocation of the operation settles.
\<close>

text \<open>\<open>a ?? b\<close>: the right operand replaces \<open>undefined\<close> only.\<close>

definition nullish :: "'a option \<Rightarrow> 'a \<Rightarrow> 'a" where
  "nullish x d = (case x of None \<Rightarrow> d | Some v \<Rightarrow> v)"

text \<open>\<open>a || b\<close> on numbers: the right operand replaces \<open>undefined\<close> and \<open>0\<close>.\<close>

definition or_else :: "int option \<Rightarrow> int \<Rightarrow> int" where
  "or_else x d = (case x of None \<Rightarrow> d | Some v \<Rightarrow> if v = 0 then d else v)"

text \<open>\<open>interface RetryConfig\<close>: every field optional.\<close>

record RetryConfig =
  cfg_maxAttempts :: "real option"
  cfg_baseDelay :: "real option"
  cfg_maxDelay :: "real option"
  cfg_jitter :: "bool option"
  cfg_backoffMultiplier :: "real option"
  cfg_retryableErrors :: "string list option"

text \<open>
  \<open>interface RetryProps\<close>, without \<open>dna\<close> (whose \<open>id\<close> is the constant \<open>'retry'\<close>) and
  without the mutable \<open>state\<close> unit, which lives in the world below. The
  \<open>Set<string>\<close> of retryable codes is the list of its elements in insertion order.
  The object returned by \<open>mergeOptions\<close> (\<open>Required<RetryConfig>\<close>) and the \<open>config\<close>
  part of \<open>RetryStats\<close> have the same six fields and reuse this record.
\<close>

record RetryProps =
  maxAttempts :: real
  baseDelay :: real
  maxDelay :: real
  jitter :: bool
  backoffMultiplier :: real
  retryableErrors :: "string list"

text \<open>A JavaScript \<open>Error\<close> with the optional \<open>code\<close> of \<open>NodeJS.ErrnoException\<close>.\<close>

record js_error =
  message :: string
  code :: "string option"

text \<open>
  What an operation can throw: an \<open>Error\<close> object, or any other value, of which
  \<open>retry\<close> only uses \<open>String(value)\<close>.
\<close>

datatype thrown = ErrorObject js_error | OtherValue string

text \<open>\<open>error instanceof Error ? error : new Error(String(error))\<close>\<close>

fun to_Error :: "thrown \<Rightarrow> js_error" where
  "to_Error (ErrorObject e) = e"
| "to_Error (OtherValue s) = \<lparr>message = s, code = None\<rparr>"

text \<open>
  \<open>interface RetryResult<T>\<close>, its fields prefixed with \<open>res_\<close> (the executor has local
  variables of the same names). The fields \<open>totalDelay\<close> and \<open>timestamp\<close> read the wall
  clock and are left out.
\<close>

record 'a RetryResult =
  res_result :: 'a
  res_attempts :: int
  res_errors :: "js_error list"
  res_success :: bool

text \<open>The keys of the statistics held in the \<open>State\<close> unit.\<close>

datatype stat_key =
  TotalOperations | TotalRetries | SuccessfulOperations | FailedOperations | AverageAttempts

type_synonym State = "stat_key \<rightharpoonup> int"

definition state_get :: "State \<Rightarrow> stat_key \<Rightarrow> int option" where
  "state_get st k = st k"

definition state_set :: "State \<Rightarrow> stat_key \<Rightarrow> int \<Rightarrow> State" where
  "state_set st k v = st(k \<mapsto> v)"

text \<open>\<open>interface RetryStats\<close>; its field \<open>config\<close> is \<open>stats_config\<close> here.\<close>

record RetryStats =
  totalOperations :: int
  totalRetries :: int
  successfulOperations :: int
  failedOperations :: int
  averageAttempts :: real
  successRate :: real
  stats_config :: RetryProps

text \<open>
  The observable effects of a call, in order: an invocation of the operation, a
  \<open>sleep(ms)\<close>, and a \<open>state.set(key, value)\<close>.
\<close>

datatype event = Invoke | Sleep int | SetStat stat_key int

text \<open>
  The world a call runs in: the \<open>State\<close> unit of the instance, the state the operation
  closes over, the trace of effects so far, the values \<open>Math.random()\<close> will return
  (\<open>draws_used\<close> counts the draws already taken), and the engine's operator \<open>**\<close> for
  an integer exponent, whose result ECMAScript leaves implementation-approximated.
\<close>

record 's world =
  stats_state :: State
  op_state :: 's
  trace :: "event list"
  random_draws :: "nat \<Rightarrow> real"
  draws_used :: nat
  exponentiate :: "real \<Rightarrow> int \<Rightarrow> real"

text \<open>
  An operation \<open>() => Promise<T>\<close> that settles: from its own state it resolves with a
  value (\<open>Inr\<close>) or rejects with a thrown value (\<open>Inl\<close>), and moves to a new state.
\<close>

type_synonym ('s, 'a) operation = "'s \<Rightarrow> (thrown + 'a) \<times> 's"

section \<open>Construction\<close>

text \<open>\<open>new Set(xs)\<close> keeps the first occurrence of each element, in order.\<close>

fun new_Set :: "string list \<Rightarrow> string list" where
  "new_Set [] = []"
| "new_Set (x # xs) = x # filter (\<lambda>y. y \<noteq> x) (new_Set xs)"

definition initialState :: State where
  "initialState = [TotalOperations \<mapsto> 0, TotalRetries \<mapsto> 0, SuccessfulOperations \<mapsto> 0,
     FailedOperations \<mapsto> 0, AverageAttempts \<mapsto> 0]"

definition emptyConfig :: RetryConfig where
  "emptyConfig = \<lparr>cfg_maxAttempts = None, cfg_baseDelay = None, cfg_maxDelay = None,
     cfg_jitter = None, cfg_backoffMultiplier = None, cfg_retryableErrors = None\<rparr>"

text \<open>\<open>static create(config)\<close>: the props and the fresh \<open>State\<close> unit.\<close>

definition create :: "RetryConfig \<Rightarrow> RetryProps \<times> State" where
  "create cfg =
     (\<lparr>maxAttempts = nullish (cfg_maxAttempts cfg) 3,
       baseDelay = nullish (cfg_baseDelay cfg) 100,
       maxDelay = nullish (cfg_maxDelay cfg) 5000,
       jitter = nullish (cfg_jitter cfg) True,
       backoffMultiplier = nullish (cfg_backoffMultiplier cfg) 2,
       retryableErrors = new_Set (nullish (cfg_retryableErrors cfg)
         [''ECONNRESET'', ''ETIMEDOUT'', ''ENOTFOUND'', ''EHOSTUNREACH''])\<rparr>,
      initialState)"

section \<open>The classifier\<close>

text \<open>\<open>String.prototype.toLowerCase\<close> on the letters \<open>A\<close> to \<open>Z\<close>.\<close>

definition lower_char :: "char \<Rightarrow> char" where
  "lower_char c =
     (let n = (of_char c :: nat) in if 65 \<le> n \<and> n \<le> 90 then char_of (n + 32) else c)"

definition toLowerCase :: "string \<Rightarrow> string" where
  "toLowerCase s = map lower_char s"

text \<open>\<open>s.includes(p)\<close>: \<open>p\<close> occurs in \<open>s\<close> as a contiguous substring.\<close>

fun str_includes :: "string \<Rightarrow> string \<Rightarrow> bool" where
  "str_includes [] p = (p = [])"
| "str_includes (c # cs) p = (prefix p (c # cs) \<or> str_includes cs p)"

definition retryablePatterns :: "string list" where
  "retryablePatterns =
     [''network'', ''timeout'', ''connection'', ''reset'', ''refused'',
      ''unreachable'', ''temporarily'', ''temporary'', ''rate limit'', ''5'', ''429'', ''502'',
      ''503'', ''504'', ''unavailable'', ''service'']"

text \<open>
  \<open>isRetryableError\<close>. In \<open>code && this.props.retryableErrors.has(code)\<close> the left
  operand is falsy for \<open>undefined\<close> and for the empty string.
\<close>

definition isRetryableError :: "RetryProps \<Rightarrow> js_error \<Rightarrow> bool" where
  "isRetryableError props error =
     (let message = toLowerCase (message error);
          code = code error
      in if (case code of None \<Rightarrow> False | Some c \<Rightarrow> c \<noteq> [] \<and> c \<in> set (retryableErrors props))
         then True
         else list_ex (\<lambda>pattern. str_includes message pattern) retryablePatterns)"

section \<open>Double-precision arithmetic\<close>

text \<open>
  \<open>binade x\<close> is the exponent \<open>e\<close> with \<open>2^e \<le> |x| < 2^(e+1)\<close>. \<open>fl x\<close> is the double
  nearest to \<open>x\<close>, ties to the even significand: a multiple of \<open>2^(e-52)\<close>, or of
  \<open>2^(-1074)\<close> in the subnormal range. Overflow to an infinity is not modelled. The
  operators \<open>*\<close>, \<open>+\<close> and \<open>-\<close> of JavaScript round the exact result.
\<close>

definition binade :: "real \<Rightarrow> int" where
  "binade x =
     (let a = \<bar>x\<bar> in if 1 \<le> a then bitlen \<lfloor>a\<rfloor> - 1 else - bitlen (\<lceil>1 / a\<rceil> - 1))"

definition round_even :: "real \<Rightarrow> int" where
  "round_even y =
     (let f = \<lfloor>y\<rfloor>; d = y - of_int f
      in if d < 1 / 2 then f else if 1 / 2 < d then f + 1 else if even f then f else f + 1)"

definition fl :: "real \<Rightarrow> real" where
  "fl x =
     (if x = 0 then 0
      else let q = 2 powi max (binade x - 52) (- 1074) in of_int (round_even (x / q)) * q)"

definition js_times :: "real \<Rightarrow> real \<Rightarrow> real" where
  "js_times a b = fl (a * b)"

definition js_plus :: "real \<Rightarrow> real \<Rightarrow> real" where
  "js_plus a b = fl (a + b)"

definition js_minus :: "real \<Rightarrow> real \<Rightarrow> real" where
  "js_minus a b = fl (a - b)"

section \<open>The delay calculator\<close>

text \<open>\<open>Math.random()\<close> takes the next draw.\<close>

definition Math_random :: "'s world \<Rightarrow> real \<times> 's world" where
  "Math_random w = (random_draws w (draws_used w), w\<lparr>draws_used := draws_used w + 1\<rparr>)"

text \<open>
  \<open>calculateDelay(attempt, config)\<close> reads every parameter from \<open>this.props\<close>; the
  argument \<open>config\<close> is not used. The literal \<open>0.1\<close> is the double \<open>fl (1 / 10)\<close>; \<open>0.5\<close>
  is exact. \<open>Math.min\<close>, \<open>Math.floor\<close> and \<open>Math.max\<close> do not round.
\<close>

definition calculateDelay :: "RetryProps \<Rightarrow> int \<Rightarrow> RetryProps \<Rightarrow> 's world \<Rightarrow> int \<times> 's world" where
  "calculateDelay props attempt config w =
     (let delay = js_times (baseDelay props)
                    (exponentiate w (backoffMultiplier props) (attempt - 1));
          delay = min delay (maxDelay props);
          (delay, w) =
            (if jitter props
             then (let jitterAmount = js_times delay (fl (1 / 10));
                       (r, w') = Math_random w
                   in (js_plus delay (js_times (js_minus r (1 / 2)) jitterAmount), w'))
             else (delay, w))
      in (max 0 \<lfloor>delay\<rfloor>, w))"

section \<open>Merging the options of a call\<close>

definition mergeOptions :: "RetryProps \<Rightarrow> RetryConfig option \<Rightarrow> RetryProps" where
  "mergeOptions props customOptions =
     \<lparr>maxAttempts = nullish (Option.bind customOptions cfg_maxAttempts) (maxAttempts props),
      baseDelay = nullish (Option.bind customOptions cfg_baseDelay) (baseDelay props),
      maxDelay = nullish (Option.bind customOptions cfg_maxDelay) (maxDelay props),
      jitter = nullish (Option.bind customOptions cfg_jitter) (jitter props),
      backoffMultiplier =
        nullish (Option.bind customOptions cfg_backoffMultiplier) (backoffMultiplier props),
      retryableErrors =
        nullish (Option.bind customOptions cfg_retryableErrors) (retryableErrors props)\<rparr>"

section \<open>Statistics\<close>

text \<open>\<open>getStats()\<close> of the unit: it only reads the \<open>State\<close> unit.\<close>

definition getStats :: "RetryProps \<Rightarrow> 's world \<Rightarrow> RetryStats \<times> 's world" where
  "getStats props w =
     (let st = stats_state w in
      (\<lparr>totalOperations = nullish (state_get st TotalOperations) 0,
        totalRetries = nullish (state_get st TotalRetries) 0,
        successfulOperations = nullish (state_get st SuccessfulOperations) 0,
        failedOperations = nullish (state_get st FailedOperations) 0,
        averageAttempts = of_int (nullish (state_get st AverageAttempts) 0),
        successRate = of_int (or_else (state_get st SuccessfulOperations) 0)
                      / of_int (or_else (state_get st TotalOperations) 1),
        stats_config = props\<rparr>, w))"

section \<open>The executor\<close>

text \<open>A non-negative integer in a template literal: its decimal digits.\<close>

fun digits :: "nat \<Rightarrow> string" where
  "digits n =
     (if n < 10 then [char_of (48 + n)] else digits (n div 10) @ [char_of (48 + n mod 10)])"

declare digits.simps [simp del]

definition String_of_int :: "int \<Rightarrow> string" where
  "String_of_int i = (if i < 0 then CHR ''-'' # digits (nat (- i)) else digits (nat i))"

text \<open>\<open>xs.join(sep)\<close>\<close>

fun join :: "string \<Rightarrow> string list \<Rightarrow> string" where
  "join sep [] = []"
| "join sep [x] = x"
| "join sep (x # y # ys) = x @ sep @ join sep (y # ys)"

text \<open>\<open>this.dna.id\<close>, fixed by \<open>create\<close>.\<close>

definition dna_id :: string where
  "dna_id = ''retry''"

text \<open>The messages of the three errors \<open>retry\<close> throws.\<close>

definition exhausted_message :: "int \<Rightarrow> js_error \<Rightarrow> js_error list \<Rightarrow> string" where
  "exhausted_message attempt err errors =
     ''['' @ dna_id @ ''] Operation failed after '' @ String_of_int attempt
       @ '' attempts. Last error: '' @ message err
       @ ''. All errors: '' @ join '', '' (map message errors)"

definition non_retryable_message :: "js_error \<Rightarrow> string" where
  "non_retryable_message err = ''['' @ dna_id @ ''] Non-retryable error: '' @ message err"

definition loop_completion_message :: string where
  "loop_completion_message = ''['' @ dna_id @ ''] Unexpected retry loop completion''"

text \<open>The effects, each appended to the trace.\<close>

definition emit :: "event \<Rightarrow> 's world \<Rightarrow> 's world" where
  "emit e w = w\<lparr>trace := trace w @ [e]\<rparr>"

definition set_stat :: "stat_key \<Rightarrow> int \<Rightarrow> 's world \<Rightarrow> 's world" where
  "set_stat k v w = emit (SetStat k v) (w\<lparr>stats_state := state_set (stats_state w) k v\<rparr>)"

definition sleep :: "int \<Rightarrow> 's world \<Rightarrow> 's world" where
  "sleep ms w = emit (Sleep ms) w"

definition invoke :: "('s, 'a) operation \<Rightarrow> 's world \<Rightarrow> (thrown + 'a) \<times> 's world" where
  "invoke operation w =
     (case operation (op_state w) of (outcome, s') \<Rightarrow> (outcome, emit Invoke (w\<lparr>op_state := s'\<rparr>)))"

text \<open>
  The \<open>for\<close> loop of \<open>retry\<close>, from the value \<open>attempt\<close> of the counter on. A thrown
  error is \<open>Inl\<close> of its message, a returned \<open>RetryResult\<close> is \<open>Inr\<close>.
\<close>

function retry_loop ::
  "RetryProps \<Rightarrow> RetryProps \<Rightarrow> ('s, 'a) operation \<Rightarrow> int \<Rightarrow> js_error list \<Rightarrow> 's world
     \<Rightarrow> (string + 'a RetryResult) \<times> 's world" where
  "retry_loop props config operation attempt errors w =
     (if of_int attempt \<le> maxAttempts config then
        (case invoke operation w of
           (Inr result, w1) \<Rightarrow>
             (let successfulOperations = nullish (state_get (stats_state w1) SuccessfulOperations) 0;
                  totalRetries = nullish (state_get (stats_state w1) TotalRetries) 0;
                  w2 = set_stat SuccessfulOperations (successfulOperations + 1) w1;
                  w3 = set_stat TotalRetries (totalRetries + (attempt - 1)) w2
              in (Inr \<lparr>res_result = result, res_attempts = attempt, res_errors = errors,
                        res_success = True\<rparr>, w3))
         | (Inl error, w1) \<Rightarrow>
             (let err = to_Error error;
                  errors = errors @ [err]
              in if of_int attempt = maxAttempts config then
                   (let failedOperations = nullish (state_get (stats_state w1) FailedOperations) 0;
                        totalRetries = nullish (state_get (stats_state w1) TotalRetries) 0;
                        w2 = set_stat FailedOperations (failedOperations + 1) w1;
                        w3 = set_stat TotalRetries (totalRetries + (attempt - 1)) w2
                    in (Inl (exhausted_message attempt err errors), w3))
                 else if \<not> isRetryableError props err then
                   (let failedOperations = nullish (state_get (stats_state w1) FailedOperations) 0;
                        totalRetries = nullish (state_get (stats_state w1) TotalRetries) 0;
                        w2 = set_stat FailedOperations (failedOperations + 1) w1;
                        w3 = set_stat TotalRetries (totalRetries + (attempt - 1)) w2
                    in (Inl (non_retryable_message err), w3))
                 else
                   (case calculateDelay props attempt config w1 of
                      (delay, w2) \<Rightarrow>
                        retry_loop props config operation (attempt + 1) errors (sleep delay w2))))
      else (Inl loop_completion_message, w))"
  by pat_completeness auto
termination
  by (relation "measure (\<lambda>(props, config, operation, attempt, errors, w).
        nat (\<lfloor>maxAttempts config\<rfloor> + 1 - attempt))") (auto simp: le_floor_iff)

declare retry_loop.simps [simp del]

text \<open>\<open>retry(operation, customOptions?)\<close>\<close>

definition retry ::
  "RetryProps \<Rightarrow> ('s, 'a) operation \<Rightarrow> RetryConfig option \<Rightarrow> 's world
     \<Rightarrow> (string + 'a RetryResult) \<times> 's world" where
  "retry props operation customOptions w =
     (let errors = [];
          config = mergeOptions props customOptions;
          totalOperations = nullish (state_get (stats_state w) TotalOperations) 0;
          w = set_stat TotalOperations (totalOperations + 1) w
      in retry_loop props config operation 1 errors w)"

text \<open>
  \<open>getStats()\<close> as \<open>src/retry.unit.ts\<close> has it: the two derived fields are computed from
  the counters, behind a guard on \<open>totalOperations\<close>.
\<close>

definition getStats_unit :: "RetryProps \<Rightarrow> 's world \<Rightarrow> RetryStats \<times> 's world" where
  "getStats_unit props w =
     (let st = stats_state w;
          totalOperations = nullish (state_get st TotalOperations) 0;
          totalRetries = nullish (state_get st TotalRetries) 0;
          successfulOperations = nullish (state_get st SuccessfulOperations) 0;
          failedOperations = nullish (state_get st FailedOperations) 0;
          averageAttempts =
            (if totalOperations > 0
             then of_int (totalOperations + totalRetries) / of_int totalOperations else 0)
      in (\<lparr>totalOperations = totalOperations,
           totalRetries = totalRetries,
           successfulOperations = successfulOperations,
           failedOperations = failedOperations,
           averageAttempts = averageAttempts,
           successRate =
             (if totalOperations > 0
              then of_int successfulOperations / of_int totalOperations else 0),
           stats_config = props\<rparr>, w))"

section \<open>Observations on a run\<close>

text \<open>
  What the properties below speak about: the value of a counter as \<open>get(key) ?? 0\<close>
  reads it, the number of invocations in a trace, the two writes that end a call, and
  the errors an operation throws on consecutive invocations.
\<close>

definition counter :: "State \<Rightarrow> stat_key \<Rightarrow> int" where
  "counter st k = nullish (state_get st k) 0"

definition terminal_writes :: "State \<Rightarrow> bool \<Rightarrow> int \<Rightarrow> event list" where
  "terminal_writes st ok a =
     [SetStat (if ok then SuccessfulOperations else FailedOperations)
        (counter st (if ok then SuccessfulOperations else FailedOperations) + 1),
      SetStat TotalRetries (counter st TotalRetries + (a - 1))]"

fun thrown_errors :: "('s, 'a) operation \<Rightarrow> 's \<Rightarrow> nat \<Rightarrow> js_error list" where
  "thrown_errors operation s 0 = []"
| "thrown_errors operation s (Suc k) =
     (case operation s of
        (Inl t, s') \<Rightarrow> to_Error t # thrown_errors operation s' k
      | (Inr r, s') \<Rightarrow> [])"

definition always_fails_retryably :: "RetryProps \<Rightarrow> ('s, 'a) operation \<Rightarrow> bool" where
  "always_fails_retryably props operation =
     (\<forall>s. case fst (operation s) of Inl t \<Rightarrow> isRetryableError props (to_Error t) | Inr r \<Rightarrow> False)"

definition invocations :: "event list \<Rightarrow> nat" where
  "invocations es = length (filter (\<lambda>e. e = Invoke) es)"

fun is_stat_write :: "event \<Rightarrow> bool" where
  "is_stat_write (SetStat k v) = True"
| "is_stat_write e = False"

text \<open>The state a sequence of effects leaves the \<open>State\<close> unit in.\<close>

fun apply_writes :: "event list \<Rightarrow> State \<Rightarrow> State" where
  "apply_writes [] st = st"
| "apply_writes (SetStat k v # es) st = apply_writes es (state_set st k v)"
| "apply_writes (e # es) st = apply_writes es st"

section \<open>Example inputs\<close>

text \<open>An engine whose \<open>**\<close> rounds the exact power to the nearest double.\<close>

definition correctly_rounded_power :: "real \<Rightarrow> int \<Rightarrow> real" where
  "correctly_rounded_power b k = fl (b powi k)"


text \<open>
  A fresh instance and its world (every random draw is 0.25, \<open>**\<close> is the correctly
  rounded power), operations that always
  fail, an operation that fails twice and then succeeds, and instances with one
  configuration field set.
\<close>

definition example_world :: "nat world" where
  "example_world = \<lparr>stats_state = snd (create emptyConfig), op_state = 0, trace = [],
     random_draws = (\<lambda>i. 1 / 4), draws_used = 0,
     exponentiate = correctly_rounded_power\<rparr>"

definition timeout_operation :: "(nat, unit) operation" where
  "timeout_operation s =
     (Inl (ErrorObject \<lparr>message = ''Connection timeout'', code = Some ''ETIMEDOUT''\<rparr>), Suc s)"

definition no_jitter_props :: RetryProps where
  "no_jitter_props = fst (create (emptyConfig\<lparr>cfg_jitter := Some False\<rparr>))"

definition flaky_operation :: "(nat, string) operation" where
  "flaky_operation s =
     (if s < 2 then (Inl (ErrorObject \<lparr>message = ''Temporary failure'', code = None\<rparr>), Suc s)
      else (Inr ''success'', Suc s))"

definition auth_operation :: "(nat, unit) operation" where
  "auth_operation s =
     (Inl (ErrorObject \<lparr>message = ''Invalid authentication credentials'', code = None\<rparr>), Suc s)"

definition eauth_operation :: "(nat, unit) operation" where
  "eauth_operation s = (Inl (ErrorObject \<lparr>message = ''denied'', code = Some ''EAUTH''\<rparr>), Suc s)"

definition jitter_props :: RetryProps where
  "jitter_props = fst (create (emptyConfig\<lparr>cfg_baseDelay := Some 10\<rparr>))"

definition empty_code_props :: RetryProps where
  "empty_code_props = fst (create (emptyConfig\<lparr>cfg_retryableErrors := Some [[]]\<rparr>))"

definition double_14_props :: RetryProps where
  "double_14_props = fst (create (emptyConfig\<lparr>cfg_jitter := Some False,
     cfg_backoffMultiplier := Some (6305039478318694 / 4503599627370496)\<rparr>))"

definition three_errors_operation :: "(nat, unit) operation" where
  "three_errors_operation s =
     (if s = 0
      then (Inl (ErrorObject \<lparr>message = ''Connection reset'', code = Some ''ECONNRESET''\<rparr>), Suc s)
      else if s = 1 then (Inl (OtherValue ''timeout''), Suc s)
      else (Inl (ErrorObject \<lparr>message = ''Service unavailable'', code = None\<rparr>), Suc s))"

definition split_a_operation :: "(nat, unit) operation" where
  "split_a_operation s =
     (if s = 0 then (Inl (OtherValue ''timeout, reset''), Suc s)
      else if s = 1 then (Inl (OtherValue ''refused''), Suc s)
      else (Inl (OtherValue ''timeout''), Suc s))"

definition split_b_operation :: "(nat, unit) operation" where
  "split_b_operation s =
     (if s = 0 then (Inl (OtherValue ''timeout''), Suc s)
      else if s = 1 then (Inl (OtherValue ''reset, refused''), Suc s)
      else (Inl (OtherValue ''timeout''), Suc s))"

definition half_budget_props :: RetryProps where
  "half_budget_props =
     fst (create (emptyConfig\<lparr>cfg_maxAttempts := Some (5 / 2), cfg_jitter := Some False\<rparr>))"

definition zero_budget_props :: RetryProps where
  "zero_budget_props = fst (create (emptyConfig\<lparr>cfg_maxAttempts := Some 0\<rparr>))"

section \<open>Effects of the primitives\<close>

lemma invoke_effect:
  assumes "invoke operation w = (x, w1)"
  shows "x = fst (operation (op_state w))"
    and "op_state w1 = snd (operation (op_state w))"
    and "trace w1 = trace w @ [Invoke]"
    and "stats_state w1 = stats_state w"
    and "random_draws w1 = random_draws w"
    and "draws_used w1 = draws_used w"
    and "exponentiate w1 = exponentiate w"
  using assms by (auto simp: invoke_def emit_def split: prod.splits)

lemma set_stat_effect:
  "trace (set_stat k v w) = trace w @ [SetStat k v]"
  "stats_state (set_stat k v w) = state_set (stats_state w) k v"
  "op_state (set_stat k v w) = op_state w"
  "random_draws (set_stat k v w) = random_draws w"
  "draws_used (set_stat k v w) = draws_used w"
  "exponentiate (set_stat k v w) = exponentiate w"
  by (simp_all add: set_stat_def emit_def)

lemma sleep_effect:
  "trace (sleep ms w) = trace w @ [Sleep ms]"
  "stats_state (sleep ms w) = stats_state w"
  "op_state (sleep ms w) = op_state w"
  "random_draws (sleep ms w) = random_draws w"
  "draws_used (sleep ms w) = draws_used w"
  "exponentiate (sleep ms w) = exponentiate w"
  by (simp_all add: sleep_def emit_def)

lemma calculateDelay_effect:
  assumes "calculateDelay props attempt config w = (d, w2)"
  shows "trace w2 = trace w"
    and "stats_state w2 = stats_state w"
    and "op_state w2 = op_state w"
    and "random_draws w2 = random_draws w"
    and "exponentiate w2 = exponentiate w"
  using assms
  by (auto simp: calculateDelay_def Math_random_def Let_def split: if_splits prod.splits)

lemma counter_state_set:
  "counter (state_set st k v) k' = (if k' = k then v else counter st k')"
  by (simp add: counter_def state_set_def state_get_def nullish_def)

lemma calculateDelay_draws:
  "draws_used (snd (calculateDelay props attempt config w)) =
     (if jitter props then draws_used w + 1 else draws_used w)"
  by (simp add: calculateDelay_def Math_random_def Let_def)

section \<open>Defaults and overrides\<close>

lemma new_Set_set: "set (new_Set xs) = set xs"
  by (induction xs) auto

lemma new_Set_distinct: "distinct (new_Set xs)"
  by (induction xs) (auto simp: new_Set_set)

lemma new_Set_example: "new_Set [''a'', ''b'', ''a'', ''c'', ''b''] = [''a'', ''b'', ''c'']"
  by simp

lemma create_defaults:
  "fst (create emptyConfig) =
     \<lparr>maxAttempts = 3, baseDelay = 100, maxDelay = 5000, jitter = True, backoffMultiplier = 2,
      retryableErrors = [''ECONNRESET'', ''ETIMEDOUT'', ''ENOTFOUND'', ''EHOSTUNREACH'']\<rparr>"
  by (simp add: create_def emptyConfig_def nullish_def)

lemma mergeOptions_overlay:
  "maxAttempts (mergeOptions props (Some c)) =
     (case cfg_maxAttempts c of None \<Rightarrow> maxAttempts props | Some v \<Rightarrow> v)"
  "baseDelay (mergeOptions props (Some c)) =
     (case cfg_baseDelay c of None \<Rightarrow> baseDelay props | Some v \<Rightarrow> v)"
  "maxDelay (mergeOptions props (Some c)) =
     (case cfg_maxDelay c of None \<Rightarrow> maxDelay props | Some v \<Rightarrow> v)"
  "jitter (mergeOptions props (Some c)) =
     (case cfg_jitter c of None \<Rightarrow> jitter props | Some v \<Rightarrow> v)"
  "backoffMultiplier (mergeOptions props (Some c)) =
     (case cfg_backoffMultiplier c of None \<Rightarrow> backoffMultiplier props | Some v \<Rightarrow> v)"
  "retryableErrors (mergeOptions props (Some c)) =
     (case cfg_retryableErrors c of None \<Rightarrow> retryableErrors props | Some v \<Rightarrow> v)"
  by (simp_all add: mergeOptions_def nullish_def)

section \<open>One turn of the loop\<close>

lemma retry_loop_done:
  "maxAttempts config < of_int attempt \<Longrightarrow>
   retry_loop props config operation attempt errors w = (Inl loop_completion_message, w)"
  by (simp add: retry_loop.simps)

lemma retry_loop_success:
  assumes "of_int attempt \<le> maxAttempts config" and "invoke operation w = (Inr r, w1)"
  shows "retry_loop props config operation attempt errors w =
    (Inr \<lparr>res_result = r, res_attempts = attempt, res_errors = errors, res_success = True\<rparr>,
     set_stat TotalRetries (counter (stats_state w1) TotalRetries + (attempt - 1))
       (set_stat SuccessfulOperations (counter (stats_state w1) SuccessfulOperations + 1) w1))"
  using assms by (simp add: retry_loop.simps [of props config operation attempt errors w] counter_def Let_def)

lemma retry_loop_exhausted:
  assumes "of_int attempt = maxAttempts config" and "invoke operation w = (Inl t, w1)"
  shows "retry_loop props config operation attempt errors w =
    (Inl (exhausted_message attempt (to_Error t) (errors @ [to_Error t])),
     set_stat TotalRetries (counter (stats_state w1) TotalRetries + (attempt - 1))
       (set_stat FailedOperations (counter (stats_state w1) FailedOperations + 1) w1))"
  by (subst retry_loop.simps) (simp add: assms counter_def Let_def)

lemma retry_loop_non_retryable:
  assumes "of_int attempt < maxAttempts config" and "invoke operation w = (Inl t, w1)"
    and "\<not> isRetryableError props (to_Error t)"
  shows "retry_loop props config operation attempt errors w =
    (Inl (non_retryable_message (to_Error t)),
     set_stat TotalRetries (counter (stats_state w1) TotalRetries + (attempt - 1))
       (set_stat FailedOperations (counter (stats_state w1) FailedOperations + 1) w1))"
  using assms by (simp add: retry_loop.simps [of props config operation attempt errors w] counter_def Let_def)

lemma retry_loop_again:
  assumes "of_int attempt < maxAttempts config" and "invoke operation w = (Inl t, w1)"
    and "isRetryableError props (to_Error t)"
    and "calculateDelay props attempt config w1 = (d, w2)"
  shows "retry_loop props config operation attempt errors w =
    retry_loop props config operation (attempt + 1) (errors @ [to_Error t]) (sleep d w2)"
  using assms by (simp add: retry_loop.simps [of props config operation attempt errors w] Let_def)

lemma always_fails_retryablyD:
  assumes "always_fails_retryably props operation"
  obtains t where "fst (operation s) = Inl t" and "isRetryableError props (to_Error t)"
proof (cases "fst (operation s)")
  case (Inl t)
  moreover from assms have "isRetryableError props (to_Error t)"
    unfolding always_fails_retryably_def using Inl by (metis sum.simps(5))
  ultimately show ?thesis using that by blast
next
  case (Inr r)
  with assms show ?thesis
    unfolding always_fails_retryably_def by (metis sum.simps(6))
qed

lemma thrown_errors_Suc:
  "fst (operation s) = Inl t \<Longrightarrow>
   thrown_errors operation s (Suc k) = to_Error t # thrown_errors operation (snd (operation s)) k"
  by (cases "operation s") auto

declare thrown_errors.simps(2) [simp del]

lemma length_thrown_errors:
  "always_fails_retryably props operation \<Longrightarrow> length (thrown_errors operation s k) = k"
proof (induction k arbitrary: s)
  case 0
  then show ?case by simp
next
  case (Suc k)
  from Suc.prems obtain t where "fst (operation s) = Inl t"
    by (rule always_fails_retryablyD)
  with Suc show ?case
    by (simp add: thrown_errors_Suc)
qed

section \<open>Rounding to a double\<close>

lemma round_even_of_int: "round_even (of_int k) = k"
  by (simp add: round_even_def)

lemma round_even_error: "\<bar>of_int (round_even y) - y\<bar> \<le> 1 / 2"
  unfolding round_even_def Let_def by (auto; linarith)

lemma round_even_nonneg: "0 \<le> y \<Longrightarrow> 0 \<le> round_even y"
  unfolding round_even_def Let_def by (auto; linarith?)

lemma binade_bounds:
  assumes "x \<noteq> 0"
  shows "2 powi binade x \<le> \<bar>x\<bar>" and "\<bar>x\<bar> < 2 powi (binade x + 1)"
proof -
  define a where "a = \<bar>x\<bar>"
  have a: "0 < a" using assms by (simp add: a_def)
  have "2 powi binade x \<le> a \<and> a < 2 powi (binade x + 1)"
  proof (cases "1 \<le> a")
    case True
    define m where "m = \<lfloor>a\<rfloor>"
    have m: "0 < m" using True by (simp add: m_def)
    have b: "binade x = bitlen m - 1"
      using True by (simp add: binade_def a_def [symmetric] m_def)
    from bitlen_bounds [OF m] have lo: "2 ^ nat (bitlen m - 1) \<le> m" and hi: "m < 2 ^ nat (bitlen m)"
      by simp_all
    have k: "1 \<le> bitlen m" using m bitlen_eq_zero_iff [of m] bitlen_nonneg [of m] by linarith
    have "(2::real) powi (bitlen m - 1) = 2 ^ nat (bitlen m - 1)"
      using k by (simp add: power_int_def)
    also have "\<dots> = of_int (2 ^ nat (bitlen m - 1))" by simp
    also have "\<dots> \<le> of_int m" using lo by (simp only: of_int_le_iff)
    also have "\<dots> \<le> a" by (simp add: m_def)
    finally have 1: "2 powi (bitlen m - 1) \<le> a" .
    have "m + 1 \<le> 2 ^ nat (bitlen m)" using hi by simp
    then have "(of_int (m + 1) :: real) \<le> of_int (2 ^ nat (bitlen m))" by (simp only: of_int_le_iff)
    moreover have "a < of_int (m + 1)" by (simp add: m_def)
    moreover have "(2::real) powi (bitlen m - 1 + 1) = of_int (2 ^ nat (bitlen m))"
      using k by (simp add: power_int_def)
    ultimately have 2: "a < 2 powi (bitlen m - 1 + 1)" by linarith
    from 1 2 show ?thesis by (simp add: b)
  next
    case False
    define y where "y = 1 / a"
    define m where "m = \<lceil>y\<rceil> - 1"
    have y: "1 < y" using False a by (simp add: y_def)
    have m: "0 < m" using y by (simp add: m_def)
    have b: "binade x = - bitlen m"
      using False by (simp add: binade_def a_def [symmetric] m_def y_def)
    from bitlen_bounds [OF m] have lo: "2 ^ nat (bitlen m - 1) \<le> m" and hi: "m < 2 ^ nat (bitlen m)"
      by simp_all
    have k: "1 \<le> bitlen m" using m bitlen_eq_zero_iff [of m] bitlen_nonneg [of m] by linarith
    have my: "of_int m < y" and ym: "y \<le> of_int (m + 1)"
      unfolding m_def by linarith+
    have "m + 1 \<le> 2 ^ nat (bitlen m)" using hi by simp
    then have "(of_int (m + 1) :: real) \<le> 2 ^ nat (bitlen m)"
      by (simp only: of_int_le_numeral_power_cancel_iff)
    with ym have yhi: "y \<le> 2 ^ nat (bitlen m)" by linarith
    have "(2::real) ^ nat (bitlen m - 1) \<le> of_int m" using lo by simp
    with my have ylo: "2 ^ nat (bitlen m - 1) < y" by linarith
    have ay: "a = 1 / y" using a by (simp add: y_def)
    have p1: "(2::real) powi (- bitlen m) = 1 / 2 ^ nat (bitlen m)"
      using k by (simp add: power_int_def field_simps)
    have p2: "(2::real) powi (- bitlen m + 1) = 1 / 2 ^ nat (bitlen m - 1)"
      using k by (simp add: power_int_def field_simps)
    have 1: "2 powi (- bitlen m) \<le> a"
      unfolding p1 ay using yhi y by (simp add: frac_le)
    have 2: "a < 2 powi (- bitlen m + 1)"
      unfolding p2 ay using ylo by (simp add: frac_less2)
    from 1 2 show ?thesis by (simp add: b)
  qed
  then show "2 powi binade x \<le> \<bar>x\<bar>" and "\<bar>x\<bar> < 2 powi (binade x + 1)"
    by (simp_all add: a_def)
qed

lemma fl_grid:
  assumes "x \<noteq> 0"
  obtains q where "q = 2 powi max (binade x - 52) (- 1074)" and "0 < q"
    and "fl x = of_int (round_even (x / q)) * q"
proof -
  have "(0::real) < 2 powi max (binade x - 52) (- 1074)" by simp
  then show ?thesis using that assms by (simp add: fl_def Let_def)
qed

lemma fl_nonneg: "0 \<le> x \<Longrightarrow> 0 \<le> fl x"
proof (cases "x = 0")
  case True
  then show ?thesis by (simp add: fl_def)
next
  case False
  assume "0 \<le> x"
  from fl_grid [OF False] obtain q where q: "0 < q" "fl x = of_int (round_even (x / q)) * q"
    by blast
  have "0 \<le> round_even (x / q)" using \<open>0 \<le> x\<close> q(1) by (simp add: round_even_nonneg)
  then show ?thesis using q by simp
qed

lemma fl_error: "\<bar>fl x - x\<bar> \<le> 2 powi (- 53) * \<bar>x\<bar> + 2 powi (- 1075)"
proof (cases "x = 0")
  case True
  then show ?thesis by (simp add: fl_def)
next
  case False
  from fl_grid [OF False] obtain q where qd: "q = 2 powi max (binade x - 52) (- 1074)"
    and q: "0 < q" and f: "fl x = of_int (round_even (x / q)) * q"
    by blast
  have "fl x - x = (of_int (round_even (x / q)) - x / q) * q"
    using q by (simp add: f field_simps)
  then have "\<bar>fl x - x\<bar> = \<bar>of_int (round_even (x / q)) - x / q\<bar> * q"
    using q by (simp add: abs_mult)
  also have "\<dots> \<le> 1 / 2 * q"
    by (rule mult_right_mono [OF round_even_error]) (use q in simp)
  finally have half: "\<bar>fl x - x\<bar> \<le> q / 2" by simp
  have halves: "(2::real) powi (k + (- 1)) = 2 powi k / 2" for k :: int
    using power_int_add [of "2::real" k "- 1"] by simp
  have "q / 2 \<le> 2 powi (- 53) * \<bar>x\<bar> + 2 powi (- 1075)"
  proof (cases "- 1074 \<le> binade x - 52")
    case True
    then have "max (binade x - 52) (- 1074) = binade x + (- 52)" by simp
    then have "q = 2 powi (binade x + (- 52))" by (simp only: qd)
    also have "\<dots> = 2 powi binade x * 2 powi (- 52)" by (rule power_int_add) simp
    finally have "q / 2 = 2 powi binade x * (2 powi (- 52) / 2)" by simp
    also have "(2::real) powi (- 52) / 2 = 2 powi (- 53)"
      using halves [of "- 52"] by simp
    also have "2 powi binade x * 2 powi (- 53) \<le> \<bar>x\<bar> * 2 powi (- 53)"
      by (rule mult_right_mono [OF binade_bounds(1) [OF False]]) simp
    finally have "q / 2 \<le> 2 powi (- 53) * \<bar>x\<bar>" by (simp only: mult.commute)
    moreover have "(0::real) \<le> 2 powi (- 1075)" by simp
    ultimately show ?thesis by linarith
  next
    case False
    then have "max (binade x - 52) (- 1074) = - 1074" by simp
    then have "q = 2 powi (- 1074)" by (simp only: qd)
    then have "q / 2 = 2 powi (- 1075)" using halves [of "- 1074"] by simp
    moreover have "0 \<le> 2 powi (- 53) * \<bar>x\<bar>" by simp
    ultimately show ?thesis by linarith
  qed
  with half show ?thesis by linarith
qed

lemma fl_of_int:
  assumes "\<bar>n\<bar> \<le> 2 ^ 53"
  shows "fl (of_int n) = of_int n"
proof (cases "n = 0")
  case True
  then show ?thesis by (simp add: fl_def)
next
  case False
  define x :: real where "x = of_int n"
  define b where "b = binade x"
  have x0: "x \<noteq> 0" using False by (simp add: x_def)
  have ax: "1 \<le> \<bar>x\<bar>" "\<bar>x\<bar> \<le> 2 ^ 53"
    using False assms unfolding x_def by (simp_all flip: of_int_abs)
  from binade_bounds [OF x0] have lo: "2 powi b \<le> \<bar>x\<bar>" and hi: "\<bar>x\<bar> < 2 powi (b + 1)"
    by (simp_all add: b_def)
  have b0: "0 \<le> b"
  proof (rule ccontr)
    assume "\<not> 0 \<le> b"
    then have "b + 1 \<le> 0" by simp
    then have "(2::real) powi (b + 1) \<le> 2 powi 0" by (intro power_int_increasing) simp_all
    with hi ax show False by simp
  qed
  have b53: "b \<le> 53"
  proof (rule ccontr)
    assume "\<not> b \<le> 53"
    then have "54 \<le> b" by simp
    then have "(2::real) powi 54 \<le> 2 powi b" by (intro power_int_increasing) simp_all
    with lo ax show False by simp
  qed
  from fl_grid [OF x0] obtain q where qd: "q = 2 powi max (b - 52) (- 1074)"
    and q: "0 < q" and f: "fl x = of_int (round_even (x / q)) * q"
    unfolding b_def by blast
  have qd': "q = 2 powi (b - 52)" using b0 by (simp add: qd max_def)
  have "\<exists>k. x / q = of_int k"
  proof (cases "b \<le> 52")
    case True
    then have "q = 1 / 2 ^ nat (52 - b)"
      by (auto simp: qd' power_int_def field_simps)
    then have "x / q = of_int (n * 2 ^ nat (52 - b))" by (simp add: x_def)
    then show ?thesis by blast
  next
    case False
    with b53 have b: "b = 53" by simp
    then have q2: "q = 2" by (simp add: qd')
    from lo ax(2) have "\<bar>x\<bar> = 2 ^ 53" by (simp add: b)
    then have "\<bar>n\<bar> = 2 ^ 53" unfolding x_def by (simp flip: of_int_abs)
    then have "n = 2 ^ 53 \<or> n = - (2 ^ 53)" by linarith
    then have "n = 2 * (n div 2)" by (elim disjE) simp_all
    then have "x / q = of_int (n div 2)"
      unfolding q2 x_def by (metis nonzero_mult_div_cancel_left of_int_mult of_int_numeral zero_neq_numeral)
    then show ?thesis by blast
  qed
  then obtain k where k: "x / q = of_int k" by blast
  have "fl x = of_int k * q" by (simp add: f k round_even_of_int)
  also have "\<dots> = x" using k q by (simp add: field_simps)
  finally show ?thesis by (simp add: x_def)
qed

lemma fl_tenth: "fl (1 / 10) = 3602879701896397 / 36028797018963968"
  by code_simp

lemma fl_examples:
  "fl (2 ^ 53 + 1) = 2 ^ 53" "fl (2 ^ 53 + 3) = 2 ^ 53 + 4"
  "fl (1 / 3) = 6004799503160661 / 18014398509481984"
  by code_simp+

lemma floor_at_zero_bounds:
  "v - 1 < of_int (max 0 \<lfloor>v\<rfloor>)" "of_int (max 0 \<lfloor>v\<rfloor>) \<le> max 0 v"
  by (simp_all add: max_def) linarith+

lemma jitter_error:
  fixes c r :: real
  assumes r: "0 \<le> r" "r < 1"
  defines "v \<equiv> fl (c + fl (fl (r - 1 / 2) * fl (c * fl (1 / 10))))"
  shows "\<bar>v - c\<bar> \<le> (5 / 100 + 2 powi (- 52)) * \<bar>c\<bar> + 2 powi (- 1073)"
proof -
  define \<eta> :: real where "\<eta> = 2 powi (- 1075)"
  define A where "A = \<bar>c\<bar>"
  define j where "j = fl (c * fl (1 / 10))"
  define s where "s = fl (r - 1 / 2)"
  define t where "t = fl (s * j)"
  have u: "(2::real) powi (- 53) = 1 / 9007199254740992"
    by (simp add: power_int_def power_divide)
  have u2: "(2::real) powi (- 52) = 2 / 9007199254740992"
    by (simp add: power_int_def power_divide)
  have e0: "0 \<le> \<eta>" by (simp add: \<eta>_def)
  have "(2::real) powi (- 1075) \<le> 2 powi (- 54)" by (intro power_int_increasing) simp_all
  moreover have "(2::real) powi (- 54) = 1 / 18014398509481984"
    by (simp add: power_int_def power_divide)
  ultimately have e1: "\<eta> \<le> 1 / 18014398509481984" by (simp only: \<eta>_def)
  have "(2::real) powi (- 1073) = 2 powi (- 1075) * 2 powi 2"
    using power_int_add [of "2::real" "- 1075" 2] by simp
  then have e4: "(2::real) powi (- 1073) = 4 * \<eta>" by (simp add: \<eta>_def)
  have A0: "0 \<le> A" by (simp add: A_def)
  have err: "\<bar>fl x - x\<bar> \<le> \<bar>x\<bar> / 9007199254740992 + \<eta>" for x
    using fl_error [of x] by (simp add: u \<eta>_def)
  have near: "\<bar>fl x\<bar> \<le> \<bar>x\<bar> + \<bar>x\<bar> / 9007199254740992 + \<eta>" for x
    using err [of x] by linarith
  have ct: "\<bar>c * fl (1 / 10)\<bar> = A * (3602879701896397 / 36028797018963968)"
    by (simp add: fl_tenth A_def abs_mult)
  have j: "\<bar>j\<bar> \<le> A * (3602879701896397 / 36028797018963968)
      + A * (3602879701896397 / 36028797018963968) / 9007199254740992 + \<eta>"
    using near [of "c * fl (1 / 10)"] unfolding j_def ct .
  have r2: "\<bar>r - 1 / 2\<bar> \<le> 1 / 2" using r by linarith
  define ar where "ar = \<bar>r - 1 / 2\<bar>"
  have s: "\<bar>s\<bar> \<le> 1 / 2 + 1 / 9007199254740992"
    using near [of "r - 1 / 2"] r2 e1 unfolding s_def ar_def [symmetric] by argo
  have "\<bar>s * j\<bar> = \<bar>s\<bar> * \<bar>j\<bar>" by (simp add: abs_mult)
  also have "\<dots> \<le> (1 / 2 + 1 / 9007199254740992) * \<bar>j\<bar>"
    by (rule mult_right_mono [OF s]) simp
  finally have sj: "\<bar>s * j\<bar> \<le> (1 / 2 + 1 / 9007199254740992) * \<bar>j\<bar>" .
  have t: "\<bar>t\<bar> \<le> \<bar>s * j\<bar> + \<bar>s * j\<bar> / 9007199254740992 + \<eta>"
    using near [of "s * j"] unfolding t_def .
  have vt: "v = fl (c + t)" by (simp add: v_def t_def s_def j_def)
  define x1 where "x1 = \<bar>v - c\<bar>"
  define x2 where "x2 = \<bar>v - (c + t)\<bar>"
  define x3 where "x3 = \<bar>t\<bar>"
  define x4 where "x4 = \<bar>c + t\<bar>"
  have "x1 \<le> x2 + x3" unfolding x1_def x2_def x3_def by linarith
  moreover have "x2 \<le> x4 / 9007199254740992 + \<eta>"
    unfolding x2_def x4_def vt by (rule err)
  moreover have "x4 \<le> A + x3" unfolding A_def x4_def x3_def by linarith
  ultimately have "x1 \<le> x3 + (A + x3) / 9007199254740992 + \<eta>"
    by argo
  then have vc: "\<bar>v - c\<bar> \<le> \<bar>t\<bar> + (A + \<bar>t\<bar>) / 9007199254740992 + \<eta>"
    by (simp only: x1_def x3_def)
  define aj where "aj = \<bar>j\<bar>"
  define asj where "asj = \<bar>s * j\<bar>"
  have "x1 \<le> (5 / 100 + 2 / 9007199254740992) * A + 4 * \<eta>"
    using j sj t vc A0 e0 e1
    unfolding aj_def [symmetric] asj_def [symmetric] x3_def [symmetric] x1_def [symmetric]
    by argo
  then have "\<bar>v - c\<bar> \<le> (5 / 100 + 2 / 9007199254740992) * A + 4 * \<eta>"
    by (simp only: x1_def)
  then show ?thesis unfolding u2 e4 A_def .
qed

section \<open>A run of failures\<close>

lemma always_fail_loop:
  assumes fails: "always_fails_retryably props operation"
    and budget: "maxAttempts config = of_int n"
    and le: "attempt \<le> n"
  shows "\<exists>w'. retry_loop props config operation attempt errors w =
           (Inl (exhausted_message n
                  (last (errors @ thrown_errors operation (op_state w) (nat (n - attempt + 1))))
                  (errors @ thrown_errors operation (op_state w) (nat (n - attempt + 1)))), w')
         \<and> invocations (trace w') = invocations (trace w) + nat (n - attempt + 1)
         \<and> stats_state w' =
             state_set (state_set (stats_state w) FailedOperations
                (counter (stats_state w) FailedOperations + 1))
               TotalRetries (counter (stats_state w) TotalRetries + (n - 1))"
  using le
proof (induction "nat (n - attempt)" arbitrary: attempt errors w)
  case 0
  then have an: "attempt = n" by simp
  then have last_one: "of_int attempt = maxAttempts config" by (simp add: budget)
  obtain x w1 where inv: "invoke operation w = (x, w1)" by (cases "invoke operation w")
  from fails obtain t where x: "fst (operation (op_state w)) = Inl t"
    by (rule always_fails_retryablyD)
  with invoke_effect(1) [OF inv] have inv': "invoke operation w = (Inl t, w1)"
    using inv by simp
  have te: "thrown_errors operation (op_state w) (Suc 0) = [to_Error t]"
    using x by (simp add: thrown_errors_Suc)
  show ?case
    using retry_loop_exhausted [OF last_one inv', of props errors]
      invoke_effect(3,4) [OF inv'] te
    by (simp add: an set_stat_effect invocations_def)
next
  case (Suc k)
  then have "attempt < n" by simp
  then have lt: "of_int attempt < maxAttempts config" by (simp add: budget)
  obtain x w1 where inv: "invoke operation w = (x, w1)" by (cases "invoke operation w")
  from fails obtain t where x: "fst (operation (op_state w)) = Inl t"
      and retryable: "isRetryableError props (to_Error t)"
    by (rule always_fails_retryablyD)
  with invoke_effect(1) [OF inv] have inv': "invoke operation w = (Inl t, w1)"
    using inv by simp
  obtain d w2 where cd: "calculateDelay props attempt config w1 = (d, w2)"
    by (cases "calculateDelay props attempt config w1")
  have step: "retry_loop props config operation attempt errors w =
      retry_loop props config operation (attempt + 1) (errors @ [to_Error t]) (sleep d w2)"
    by (rule retry_loop_again [OF lt inv' retryable cd])
  have k: "k = nat (n - (attempt + 1))"
    using Suc.hyps(2) by simp
  have le': "attempt + 1 \<le> n" using \<open>attempt < n\<close> by simp
  have n: "nat (n - attempt + 1) = Suc (nat (n - (attempt + 1) + 1))"
    using \<open>attempt < n\<close> by simp
  have ops: "op_state (sleep d w2) = snd (operation (op_state w))"
    using invoke_effect(2) [OF inv'] calculateDelay_effect(3) [OF cd] by (simp add: sleep_effect)
  have te: "thrown_errors operation (op_state w) (nat (n - attempt + 1)) =
      to_Error t # thrown_errors operation (op_state (sleep d w2)) (nat (n - (attempt + 1) + 1))"
    using x by (simp add: n ops thrown_errors_Suc)
  have tr: "trace (sleep d w2) = trace w @ [Invoke, Sleep d]"
    using invoke_effect(3) [OF inv'] calculateDelay_effect(1) [OF cd] by (simp add: sleep_effect)
  have st: "stats_state (sleep d w2) = stats_state w"
    using invoke_effect(4) [OF inv'] calculateDelay_effect(2) [OF cd] by (simp add: sleep_effect)
  from Suc.hyps(1) [OF k le', of "errors @ [to_Error t]" "sleep d w2"]
  show ?case
    unfolding step te by (simp add: tr st invocations_def n)
qed

lemma retry_unfold:
  "retry props operation customOptions w =
     retry_loop props (mergeOptions props customOptions) operation 1 []
       (set_stat TotalOperations (counter (stats_state w) TotalOperations + 1) w)"
  by (simp add: retry_def counter_def Let_def)

lemma exhausted_run:
  assumes "1 \<le> n" and "maxAttempts (mergeOptions props customOptions) = of_int n"
    and "always_fails_retryably props operation"
  shows "\<exists>w'. retry props operation customOptions w =
           (Inl (exhausted_message n (last (thrown_errors operation (op_state w) (nat n)))
                  (thrown_errors operation (op_state w) (nat n))), w')
         \<and> invocations (trace w') = invocations (trace w) + nat n
         \<and> counter (stats_state w') FailedOperations =
             counter (stats_state w) FailedOperations + 1
         \<and> counter (stats_state w') TotalRetries =
             counter (stats_state w) TotalRetries + (n - 1)"
proof -
  let ?config = "mergeOptions props customOptions"
  let ?w0 = "set_stat TotalOperations (counter (stats_state w) TotalOperations + 1) w"
  from always_fail_loop [OF assms(3,2,1), of "[]" ?w0]
  obtain w' where
    r: "retry_loop props ?config operation 1 [] ?w0 =
         (Inl (exhausted_message n
                (last (thrown_errors operation (op_state w) (nat n)))
                (thrown_errors operation (op_state w) (nat n))), w')"
    and i: "invocations (trace w') = invocations (trace ?w0) + nat n"
    and s: "stats_state w' =
         state_set (state_set (stats_state ?w0) FailedOperations
            (counter (stats_state ?w0) FailedOperations + 1))
           TotalRetries (counter (stats_state ?w0) TotalRetries + (n - 1))"
    by (auto simp: set_stat_effect)
  have "invocations (trace ?w0) = invocations (trace w)"
    by (simp add: set_stat_effect invocations_def)
  with r i s show ?thesis
    by (simp add: retry_unfold set_stat_effect counter_state_set)
qed

section \<open>The message of the exhausted error\<close>

lemma digits_nonempty: "digits n \<noteq> []"
  by (subst digits.simps) simp

lemma digits_digit:
  "list_all (\<lambda>c. 48 \<le> (of_char c :: nat) \<and> (of_char c :: nat) \<le> 57) (digits n)"
proof (induction n rule: digits.induct)
  case (1 n)
  show ?case
  proof (cases "n < 10")
    case True
    then show ?thesis by (subst digits.simps) simp
  next
    case False
    with 1 show ?thesis by (subst digits.simps) simp
  qed
qed

lemma digits_value: "foldl (\<lambda>a c. 10 * a + (of_char c - 48)) 0 (digits n) = n"
proof (induction n rule: digits.induct)
  case (1 n)
  show ?case
  proof (cases "n < 10")
    case True
    then show ?thesis by (subst digits.simps) simp
  next
    case False
    with 1 show ?thesis by (subst digits.simps) simp
  qed
qed

lemma digits_hd: "0 < n \<Longrightarrow> hd (digits n) \<noteq> CHR ''0''"
proof (induction n rule: digits.induct)
  case (1 n)
  show ?case
  proof (cases "n < 10")
    case True
    with "1.prems" show ?thesis
      by (subst digits.simps) (simp add: char_of_eq_iff take_bit_nat_eq_self)
  next
    case False
    then have "0 < n div 10" by simp
    with 1 False have "hd (digits (n div 10)) \<noteq> CHR ''0''" by simp
    with False show ?thesis
      by (subst digits.simps) (simp add: digits_nonempty)
  qed
qed

lemma join_last:
  "xs \<noteq> [] \<Longrightarrow> join sep xs = concat (map (\<lambda>x. x @ sep) (butlast xs)) @ last xs"
  by (induction sep xs rule: join.induct) simp_all

lemma exhausted_message_explicit:
  assumes "es \<noteq> []" and "1 \<le> n"
  shows "exhausted_message n (last es) es =
    ''[retry] Operation failed after '' @ digits (nat n) @ '' attempts. Last error: ''
      @ message (last es) @ ''. All errors: ''
      @ concat (map (\<lambda>e. message e @ '', '') (butlast es)) @ message (last es)"
proof -
  have "join '', '' (map message es) =
      concat (map (\<lambda>e. message e @ '', '') (butlast es)) @ message (last es)"
    using assms(1) by (simp add: join_last map_butlast [symmetric] last_map comp_def)
  then show ?thesis
    using assms(2) by (simp add: exhausted_message_def dna_id_def String_of_int_def)
qed

section \<open>Exhaustion\<close>

text \<open>
  Claim C1, amended. For every \<open>maxAttempts = n\<close> with \<open>1 \<le> n \<le> 2^53\<close> (the range in which
  the attempt counter is exact) and every operation that always fails with a retryable
  error, \<open>retry\<close> invokes the operation exactly \<open>n\<close> times and then throws an \<open>Error\<close>
  whose message holds \<open>n\<close> in decimal, the message of the last error, and the messages of
  all \<open>n\<close> errors in order, joined by a comma and a space; \<open>failedOperations\<close> grows by
  one and \<open>totalRetries\<close> by \<open>n - 1\<close>. The error objects and their codes are not carried.
\<close>

theorem exhausted_after_n_attempts:
  assumes "1 \<le> n" and "n \<le> 2 ^ 53"
    and "maxAttempts (mergeOptions props customOptions) = of_int n"
    and "always_fails_retryably props operation"
  shows "\<exists>w' ds. let es = thrown_errors operation (op_state w) (nat n) in
           retry props operation customOptions w =
             (Inl (''[retry] Operation failed after '' @ ds @ '' attempts. Last error: ''
                   @ message (last es) @ ''. All errors: ''
                   @ concat (map (\<lambda>e. message e @ '', '') (butlast es)) @ message (last es)),
              w')
         \<and> list_all (\<lambda>c. 48 \<le> (of_char c :: nat) \<and> (of_char c :: nat) \<le> 57) ds
         \<and> hd ds \<noteq> CHR ''0''
         \<and> foldl (\<lambda>a c. 10 * a + (of_char c - 48)) 0 ds = nat n
         \<and> length es = nat n
         \<and> invocations (trace w') = invocations (trace w) + nat n
         \<and> counter (stats_state w') FailedOperations =
             counter (stats_state w) FailedOperations + 1
         \<and> counter (stats_state w') TotalRetries =
             counter (stats_state w) TotalRetries + (n - 1)"
proof -
  define es where "es = thrown_errors operation (op_state w) (nat n)"
  have len: "length es = nat n"
    unfolding es_def by (rule length_thrown_errors [OF assms(4)])
  with assms(1) have ne: "es \<noteq> []" by auto
  from exhausted_run [OF assms(1,3,4), of w] obtain w' where
    r: "retry props operation customOptions w = (Inl (exhausted_message n (last es) es), w')"
    and rest: "invocations (trace w') = invocations (trace w) + nat n"
      "counter (stats_state w') FailedOperations = counter (stats_state w) FailedOperations + 1"
      "counter (stats_state w') TotalRetries = counter (stats_state w) TotalRetries + (n - 1)"
    unfolding es_def by blast
  have pos: "0 < nat n" using assms(1) by simp
  show ?thesis
    unfolding Let_def es_def [symmetric]
    apply (rule exI [of _ w'])
    apply (rule exI [of _ "digits (nat n)"])
    using r rest len digits_digit [of "nat n"] digits_value [of "nat n"] digits_hd [OF pos]
    by (simp add: exhausted_message_explicit [OF ne assms(1)])
qed

theorem exhausted_after_n_attempts_witness:
  "(1::int) \<le> 3 \<and> (3::int) \<le> 2 ^ 53
   \<and> maxAttempts (mergeOptions (fst (create emptyConfig)) None) = of_int 3
   \<and> always_fails_retryably (fst (create emptyConfig)) three_errors_operation
   \<and> (\<exists>w' ds. retry (fst (create emptyConfig)) three_errors_operation None example_world =
          (Inl (''[retry] Operation failed after '' @ ds @ '' attempts. Last error: Service unavailable. All errors: Connection reset, timeout, Service unavailable''), w')
        \<and> foldl (\<lambda>a c. 10 * a + (of_char c - 48)) 0 ds = nat 3
        \<and> invocations (trace w') = 3
        \<and> counter (stats_state w') FailedOperations = 1
        \<and> counter (stats_state w') TotalRetries = 2)"
proof -
  let ?props = "fst (create emptyConfig)"
  have h1: "(1::int) \<le> 3" and h2: "(3::int) \<le> 2 ^ 53" by simp_all
  have h3: "maxAttempts (mergeOptions ?props None) = of_int 3"
    by (simp add: mergeOptions_def create_def emptyConfig_def nullish_def)
  have r1: "isRetryableError ?props \<lparr>message = ''Connection reset'', code = Some ''ECONNRESET''\<rparr>"
    by code_simp
  have r2: "isRetryableError ?props \<lparr>message = ''timeout'', code = None\<rparr>"
    by code_simp
  have r3: "isRetryableError ?props \<lparr>message = ''Service unavailable'', code = None\<rparr>"
    by code_simp
  have h4: "always_fails_retryably ?props three_errors_operation"
    unfolding always_fails_retryably_def three_errors_operation_def
    using r1 r2 r3 by simp
  have es: "thrown_errors three_errors_operation (op_state example_world) (nat 3) =
      [\<lparr>message = ''Connection reset'', code = Some ''ECONNRESET''\<rparr>,
       \<lparr>message = ''timeout'', code = None\<rparr>,
       \<lparr>message = ''Service unavailable'', code = None\<rparr>]"
    by (simp add: eval_nat_numeral thrown_errors.simps three_errors_operation_def
        example_world_def)
  have c0: "counter (stats_state example_world) FailedOperations = 0"
       "counter (stats_state example_world) TotalRetries = 0"
       "invocations (trace example_world) = 0"
    by (simp_all add: example_world_def create_def initialState_def counter_def state_get_def
        nullish_def invocations_def)
  from exhausted_after_n_attempts [OF h1 h2 h3 h4, of example_world]
  have "\<exists>w' ds. retry ?props three_errors_operation None example_world =
          (Inl (''[retry] Operation failed after '' @ ds @ '' attempts. Last error: Service unavailable. All errors: Connection reset, timeout, Service unavailable''), w')
        \<and> foldl (\<lambda>a c. 10 * a + (of_char c - 48)) 0 ds = nat 3
        \<and> invocations (trace w') = 3
        \<and> counter (stats_state w') FailedOperations = 1
        \<and> counter (stats_state w') TotalRetries = 2"
    unfolding es Let_def by (auto simp: c0)
  with h1 h2 h3 h4 show ?thesis by blast
qed

theorem exhausted_after_n_attempts_counterexample:
  "thrown_errors split_a_operation (op_state example_world) (nat 3) =
     [\<lparr>message = ''timeout, reset'', code = None\<rparr>, \<lparr>message = ''refused'', code = None\<rparr>,
      \<lparr>message = ''timeout'', code = None\<rparr>]
   \<and> thrown_errors split_b_operation (op_state example_world) (nat 3) =
     [\<lparr>message = ''timeout'', code = None\<rparr>, \<lparr>message = ''reset, refused'', code = None\<rparr>,
      \<lparr>message = ''timeout'', code = None\<rparr>]
   \<and> fst (retry (fst (create emptyConfig)) split_a_operation None example_world) =
       Inl ''[retry] Operation failed after 3 attempts. Last error: timeout. All errors: timeout, reset, refused, timeout''
   \<and> fst (retry (fst (create emptyConfig)) split_b_operation None example_world) =
       Inl ''[retry] Operation failed after 3 attempts. Last error: timeout. All errors: timeout, reset, refused, timeout''"
proof -
  let ?props = "fst (create emptyConfig)"
  have h1: "(1::int) \<le> 3" by simp
  have h3: "maxAttempts (mergeOptions ?props None) = of_int 3"
    by (simp add: mergeOptions_def create_def emptyConfig_def nullish_def)
  have r: "isRetryableError ?props \<lparr>message = ''timeout, reset'', code = None\<rparr>"
      "isRetryableError ?props \<lparr>message = ''refused'', code = None\<rparr>"
      "isRetryableError ?props \<lparr>message = ''timeout'', code = None\<rparr>"
      "isRetryableError ?props \<lparr>message = ''reset, refused'', code = None\<rparr>"
    by code_simp+
  have fa: "always_fails_retryably ?props split_a_operation"
    unfolding always_fails_retryably_def split_a_operation_def using r by simp
  have fb: "always_fails_retryably ?props split_b_operation"
    unfolding always_fails_retryably_def split_b_operation_def using r by simp
  have ea: "thrown_errors split_a_operation (op_state example_world) (nat 3) =
     [\<lparr>message = ''timeout, reset'', code = None\<rparr>, \<lparr>message = ''refused'', code = None\<rparr>,
      \<lparr>message = ''timeout'', code = None\<rparr>]"
    by (simp add: eval_nat_numeral thrown_errors.simps split_a_operation_def example_world_def)
  have eb: "thrown_errors split_b_operation (op_state example_world) (nat 3) =
     [\<lparr>message = ''timeout'', code = None\<rparr>, \<lparr>message = ''reset, refused'', code = None\<rparr>,
      \<lparr>message = ''timeout'', code = None\<rparr>]"
    by (simp add: eval_nat_numeral thrown_errors.simps split_b_operation_def example_world_def)
  have msg_a: "exhausted_message 3 \<lparr>message = ''timeout'', code = None\<rparr>
     [\<lparr>message = ''timeout, reset'', code = None\<rparr>, \<lparr>message = ''refused'', code = None\<rparr>,
      \<lparr>message = ''timeout'', code = None\<rparr>] =
     ''[retry] Operation failed after 3 attempts. Last error: timeout. All errors: timeout, reset, refused, timeout''"
    by (simp add: exhausted_message_def dna_id_def String_of_int_def digits.simps char_of_eq_iff)
  have msg_b: "exhausted_message 3 \<lparr>message = ''timeout'', code = None\<rparr>
     [\<lparr>message = ''timeout'', code = None\<rparr>, \<lparr>message = ''reset, refused'', code = None\<rparr>,
      \<lparr>message = ''timeout'', code = None\<rparr>] =
     ''[retry] Operation failed after 3 attempts. Last error: timeout. All errors: timeout, reset, refused, timeout''"
    by (simp add: exhausted_message_def dna_id_def String_of_int_def digits.simps char_of_eq_iff)
  have ma: "fst (retry ?props split_a_operation None example_world) =
       Inl ''[retry] Operation failed after 3 attempts. Last error: timeout. All errors: timeout, reset, refused, timeout''"
    using exhausted_run [OF h1 h3 fa, of example_world] unfolding ea
    by (auto simp: msg_a)
  have mb: "fst (retry ?props split_b_operation None example_world) =
       Inl ''[retry] Operation failed after 3 attempts. Last error: timeout. All errors: timeout, reset, refused, timeout''"
    using exhausted_run [OF h1 h3 fb, of example_world] unfolding eb
    by (auto simp: msg_b)
  from ea eb ma mb show ?thesis by blast
qed

section \<open>The shape of a run\<close>

lemma terminal_shape:
  assumes inv: "invoke operation w = (x, w1)"
    and K: "K = (if ok then SuccessfulOperations else FailedOperations)"
    and w': "w' = set_stat TotalRetries (counter (stats_state w1) TotalRetries + (attempt - 1))
               (set_stat K (counter (stats_state w1) K + 1) w1)"
  shows "trace w' = trace w @ [Invoke] @ terminal_writes (stats_state w) ok attempt"
    and "stats_state w' =
           apply_writes (terminal_writes (stats_state w) ok attempt) (stats_state w)"
  using invoke_effect(3,4) [OF inv]
  by (simp_all add: w' K set_stat_effect terminal_writes_def)

lemma retry_loop_run:
  assumes "retry_loop props config operation attempt errors w = (out, w')"
  shows "\<exists>body. list_all (\<lambda>e. \<not> is_stat_write e) body
         \<and> (trace w' = trace w @ body
               @ terminal_writes (stats_state w) (\<not> isl out) (attempt + int (invocations body) - 1)
             \<and> body \<noteq> [] \<and> last body = Invoke
             \<and> stats_state w' =
                 apply_writes (terminal_writes (stats_state w) (\<not> isl out)
                   (attempt + int (invocations body) - 1)) (stats_state w)
             \<and> (\<forall>r. out = Inr r \<longrightarrow> res_attempts r = attempt + int (invocations body) - 1)
            \<or> out = Inl loop_completion_message \<and> trace w' = trace w @ body
             \<and> stats_state w' = stats_state w
             \<and> (\<forall>n. maxAttempts config = of_int n \<longrightarrow> n < attempt))"
  using assms
proof (induction "nat (\<lfloor>maxAttempts config\<rfloor> + 1 - attempt)" arbitrary: attempt errors w)
  case 0
  then have "\<lfloor>maxAttempts config\<rfloor> < attempt" by simp
  then have gt: "maxAttempts config < of_int attempt" by (simp add: floor_less_iff)
  with "0.prems" have "out = Inl loop_completion_message" "w' = w"
    by (simp_all add: retry_loop_done)
  moreover have "\<forall>n. maxAttempts config = of_int n \<longrightarrow> n < attempt"
    using gt by auto
  ultimately show ?case
    by (intro exI [of _ "[]"]) simp
next
  case (Suc k)
  then have "attempt \<le> \<lfloor>maxAttempts config\<rfloor>" by simp
  then have le: "of_int attempt \<le> maxAttempts config" by (simp add: le_floor_iff)
  obtain x w1 where inv: "invoke operation w = (x, w1)" by (cases "invoke operation w")
  show ?case
  proof (cases x)
    case (Inr r)
    with inv have inv': "invoke operation w = (Inr r, w1)" by simp
    from retry_loop_success [OF le inv', of props errors] Suc.prems
    have out: "out = Inr \<lparr>res_result = r, res_attempts = attempt, res_errors = errors,
                 res_success = True\<rparr>"
      and w': "w' = set_stat TotalRetries (counter (stats_state w1) TotalRetries + (attempt - 1))
               (set_stat SuccessfulOperations (counter (stats_state w1) SuccessfulOperations + 1) w1)"
      by simp_all
    from terminal_shape [OF inv _ w', of True] out show ?thesis
      by (intro exI [of _ "[Invoke]"]) (simp add: invocations_def)
  next
    case (Inl t)
    with inv have inv': "invoke operation w = (Inl t, w1)" by simp
    show ?thesis
    proof (cases "of_int attempt = maxAttempts config")
      case True
      from retry_loop_exhausted [OF True inv', of props errors] Suc.prems
      have out: "out = Inl (exhausted_message attempt (to_Error t) (errors @ [to_Error t]))"
        and w': "w' = set_stat TotalRetries (counter (stats_state w1) TotalRetries + (attempt - 1))
                 (set_stat FailedOperations (counter (stats_state w1) FailedOperations + 1) w1)"
        by simp_all
      from terminal_shape [OF inv _ w', of False] out show ?thesis
        by (intro exI [of _ "[Invoke]"]) (simp add: invocations_def)
    next
      case False
      with le have lt: "of_int attempt < maxAttempts config" by simp
      show ?thesis
      proof (cases "isRetryableError props (to_Error t)")
        case False
        from retry_loop_non_retryable [OF lt inv' False, of errors] Suc.prems
        have out: "out = Inl (non_retryable_message (to_Error t))"
          and w': "w' = set_stat TotalRetries (counter (stats_state w1) TotalRetries + (attempt - 1))
                   (set_stat FailedOperations (counter (stats_state w1) FailedOperations + 1) w1)"
          by simp_all
        from terminal_shape [OF inv _ w', of False] out show ?thesis
          by (intro exI [of _ "[Invoke]"]) (simp add: invocations_def)
      next
        case True
        obtain d w2 where cd: "calculateDelay props attempt config w1 = (d, w2)"
          by (cases "calculateDelay props attempt config w1")
        have step: "retry_loop props config operation (attempt + 1) (errors @ [to_Error t])
            (sleep d w2) = (out, w')"
          using retry_loop_again [OF lt inv' True cd, of errors] Suc.prems by simp
        have k: "k = nat (\<lfloor>maxAttempts config\<rfloor> + 1 - (attempt + 1))"
          using Suc.hyps(2) by simp
        have tr: "trace (sleep d w2) = trace w @ [Invoke, Sleep d]"
          using invoke_effect(3) [OF inv'] calculateDelay_effect(1) [OF cd]
          by (simp add: sleep_effect)
        have st: "stats_state (sleep d w2) = stats_state w"
          using invoke_effect(4) [OF inv'] calculateDelay_effect(2) [OF cd]
          by (simp add: sleep_effect)
        from Suc.hyps(1) [OF k step] obtain body where
          nw: "list_all (\<lambda>e. \<not> is_stat_write e) body"
          and alt: "trace w' = trace (sleep d w2) @ body
               @ terminal_writes (stats_state (sleep d w2)) (\<not> isl out)
                   (attempt + 1 + int (invocations body) - 1)
             \<and> body \<noteq> [] \<and> last body = Invoke
             \<and> stats_state w' =
                 apply_writes (terminal_writes (stats_state (sleep d w2)) (\<not> isl out)
                   (attempt + 1 + int (invocations body) - 1)) (stats_state (sleep d w2))
             \<and> (\<forall>r. out = Inr r \<longrightarrow>
                  res_attempts r = attempt + 1 + int (invocations body) - 1)
            \<or> out = Inl loop_completion_message \<and> trace w' = trace (sleep d w2) @ body
             \<and> stats_state w' = stats_state (sleep d w2)
             \<and> (\<forall>n. maxAttempts config = of_int n \<longrightarrow> n < attempt + 1)"
          by blast
        have n: "attempt + int (invocations ([Invoke, Sleep d] @ body)) - 1 =
            attempt + 1 + int (invocations body) - 1"
          by (simp add: invocations_def)
        have int_budget: "n < attempt" if "maxAttempts config = of_int n" "n < attempt + 1" for n
          using that False by (cases "n = attempt") auto
        show ?thesis
          apply (rule exI [of _ "[Invoke, Sleep d] @ body"])
          unfolding n using nw alt int_budget by (auto simp: tr st)
      qed
    qed
  qed
qed

lemma terminal_writes_after_total:
  "terminal_writes (state_set st TotalOperations v) ok a = terminal_writes st ok a"
  by (simp add: terminal_writes_def counter_state_set)

lemma counter_apply_terminal_writes:
  "counter (apply_writes (terminal_writes st ok a) st') k =
     (if k = TotalRetries then counter st TotalRetries + (a - 1)
      else if k = (if ok then SuccessfulOperations else FailedOperations)
      then counter st k + 1 else counter st' k)"
  by (simp add: terminal_writes_def counter_state_set)

lemma loop_keeps_counter:
  assumes "retry_loop props config operation attempt errors w = (out, w')"
    and "k = TotalOperations \<or> k = AverageAttempts"
  shows "counter (stats_state w') k = counter (stats_state w) k"
  using retry_loop_run [OF assms(1)] assms(2)
  by (auto simp: counter_apply_terminal_writes)

lemma retry_total_operations:
  "counter (stats_state (snd (retry props operation customOptions w))) TotalOperations =
     counter (stats_state w) TotalOperations + 1"
proof -
  obtain out w' where r: "retry_loop props (mergeOptions props customOptions) operation 1 []
      (set_stat TotalOperations (counter (stats_state w) TotalOperations + 1) w) = (out, w')"
    by (cases "retry_loop props (mergeOptions props customOptions) operation 1 []
      (set_stat TotalOperations (counter (stats_state w) TotalOperations + 1) w)")
  from loop_keeps_counter [OF r, of TotalOperations] show ?thesis
    by (simp add: retry_unfold r set_stat_effect counter_state_set)
qed

lemma retry_keeps_averageAttempts:
  "counter (stats_state (snd (retry props operation customOptions w))) AverageAttempts =
     counter (stats_state w) AverageAttempts"
proof -
  obtain out w' where r: "retry_loop props (mergeOptions props customOptions) operation 1 []
      (set_stat TotalOperations (counter (stats_state w) TotalOperations + 1) w) = (out, w')"
    by (cases "retry_loop props (mergeOptions props customOptions) operation 1 []
      (set_stat TotalOperations (counter (stats_state w) TotalOperations + 1) w)")
  from loop_keeps_counter [OF r, of AverageAttempts] show ?thesis
    by (simp add: retry_unfold r set_stat_effect counter_state_set)
qed

section \<open>Evaluating the example runs\<close>

lemma mergeOptions_None: "mergeOptions props None = props"
  by (simp add: mergeOptions_def nullish_def)

lemma fresh_state: "snd (create cfg) = initialState"
  by (simp add: create_def)

lemma example_world_fields:
  "stats_state example_world = initialState" "op_state example_world = 0"
  "trace example_world = []" "exponentiate example_world = correctly_rounded_power"
  by (simp_all add: example_world_def fresh_state)

lemma plain_delay:
  assumes "\<not> jitter props" and "exponentiate w = correctly_rounded_power"
  shows "calculateDelay props attempt config w =
    (max 0 \<lfloor>min (fl (baseDelay props * fl (backoffMultiplier props powi (attempt - 1))))
             (maxDelay props)\<rfloor>, w)"
  using assms by (simp add: calculateDelay_def js_times_def correctly_rounded_power_def)

lemma no_jitter_fields:
  "maxAttempts no_jitter_props = 3" "jitter no_jitter_props = False"
  "baseDelay no_jitter_props = 100"
  by (simp_all add: no_jitter_props_def create_def emptyConfig_def nullish_def)

lemma half_budget_fields:
  "maxAttempts half_budget_props = 5 / 2" "jitter half_budget_props = False"
  by (simp_all add: half_budget_props_def create_def emptyConfig_def nullish_def)

lemma zero_budget_fields: "maxAttempts zero_budget_props = 0"
  by (simp add: zero_budget_props_def create_def emptyConfig_def nullish_def)

lemma no_jitter_delays:
  assumes "exponentiate w = correctly_rounded_power"
  shows "calculateDelay no_jitter_props 1 config w = (100, w)"
    and "calculateDelay no_jitter_props 2 config w = (200, w)"
proof -
  have "max 0 \<lfloor>min (fl (baseDelay no_jitter_props
            * fl (backoffMultiplier no_jitter_props powi (1 - 1))))
          (maxDelay no_jitter_props)\<rfloor> = 100"
    "max 0 \<lfloor>min (fl (baseDelay no_jitter_props
            * fl (backoffMultiplier no_jitter_props powi (2 - 1))))
          (maxDelay no_jitter_props)\<rfloor> = 200"
    by code_simp+
  then show "calculateDelay no_jitter_props 1 config w = (100, w)"
    and "calculateDelay no_jitter_props 2 config w = (200, w)"
    using plain_delay [OF _ assms, of no_jitter_props] by (simp_all add: no_jitter_fields)
qed

lemma half_budget_delays:
  assumes "exponentiate w = correctly_rounded_power"
  shows "calculateDelay half_budget_props 1 config w = (100, w)"
    and "calculateDelay half_budget_props 2 config w = (200, w)"
proof -
  have "max 0 \<lfloor>min (fl (baseDelay half_budget_props
            * fl (backoffMultiplier half_budget_props powi (1 - 1))))
          (maxDelay half_budget_props)\<rfloor> = 100"
    "max 0 \<lfloor>min (fl (baseDelay half_budget_props
            * fl (backoffMultiplier half_budget_props powi (2 - 1))))
          (maxDelay half_budget_props)\<rfloor> = 200"
    by code_simp+
  then show "calculateDelay half_budget_props 1 config w = (100, w)"
    and "calculateDelay half_budget_props 2 config w = (200, w)"
    using plain_delay [OF _ assms, of half_budget_props] by (simp_all add: half_budget_fields)
qed

lemma example_classification:
  "isRetryableError no_jitter_props \<lparr>message = ''Temporary failure'', code = None\<rparr>"
  "isRetryableError no_jitter_props \<lparr>message = ''Connection timeout'', code = Some ''ETIMEDOUT''\<rparr>"
  "isRetryableError half_budget_props
     \<lparr>message = ''Connection timeout'', code = Some ''ETIMEDOUT''\<rparr>"
  "\<not> isRetryableError no_jitter_props \<lparr>message = ''denied'', code = Some ''EAUTH''\<rparr>"
  by code_simp+

lemmas run_simps = retry_def retry_loop.simps Let_def mergeOptions_None invoke_def set_stat_def
  sleep_def emit_def state_get_def state_set_def nullish_def example_world_fields
  initialState_def no_jitter_fields half_budget_fields zero_budget_fields no_jitter_delays
  half_budget_delays example_classification

lemma flaky_run:
  "fst (retry no_jitter_props flaky_operation None example_world) =
     Inr \<lparr>res_result = ''success'', res_attempts = 3,
          res_errors = [\<lparr>message = ''Temporary failure'', code = None\<rparr>,
                        \<lparr>message = ''Temporary failure'', code = None\<rparr>],
          res_success = True\<rparr>"
  "trace (snd (retry no_jitter_props flaky_operation None example_world)) =
     [SetStat TotalOperations 1, Invoke, Sleep 100, Invoke, Sleep 200, Invoke,
      SetStat SuccessfulOperations 1, SetStat TotalRetries 2]"
  "counter (stats_state (snd (retry no_jitter_props flaky_operation None example_world))) k =
     (case k of TotalOperations \<Rightarrow> 1 | TotalRetries \<Rightarrow> 2 | SuccessfulOperations \<Rightarrow> 1
      | FailedOperations \<Rightarrow> 0 | AverageAttempts \<Rightarrow> 0)"
  by (simp_all add: run_simps flaky_operation_def counter_def split: stat_key.splits)

section \<open>When the counters are written\<close>

text \<open>
  With a whole number \<open>n \<ge> 1\<close> as effective \<open>maxAttempts\<close>, every call writes
  \<open>totalOperations\<close> first, then invokes and sleeps without writing a counter, and ends,
  directly after its last invocation, with exactly two writes: \<open>successfulOperations\<close> or
  \<open>failedOperations\<close> one more than before, and \<open>totalRetries\<close> increased by the number
  of invocations minus one.
\<close>

lemma counters_written_once_for_whole_budget:
  assumes "retry props operation customOptions w = (out, w')"
    and "maxAttempts (mergeOptions props customOptions) = of_int n" and "1 \<le> n"
  shows "\<exists>body. trace w' =
           trace w @ SetStat TotalOperations (counter (stats_state w) TotalOperations + 1)
             # body @ terminal_writes (stats_state w) (\<not> isl out) (int (invocations body))
       \<and> list_all (\<lambda>e. \<not> is_stat_write e) body \<and> body \<noteq> [] \<and> last body = Invoke
       \<and> stats_state w' =
           apply_writes (terminal_writes (stats_state w) (\<not> isl out) (int (invocations body)))
             (state_set (stats_state w) TotalOperations
                (counter (stats_state w) TotalOperations + 1))"
proof -
  let ?w0 = "set_stat TotalOperations (counter (stats_state w) TotalOperations + 1) w"
  from assms(1) have r: "retry_loop props (mergeOptions props customOptions) operation 1 [] ?w0 =
      (out, w')"
    by (simp add: retry_unfold)
  have "\<not> (\<forall>m. maxAttempts (mergeOptions props customOptions) = of_int m \<longrightarrow> m < 1)"
    using assms(2,3) by auto
  with retry_loop_run [OF r] obtain body where
    b: "trace w' = trace ?w0 @ body
          @ terminal_writes (stats_state ?w0) (\<not> isl out) (1 + int (invocations body) - 1)"
       "list_all (\<lambda>e. \<not> is_stat_write e) body" "body \<noteq> []" "last body = Invoke"
       "stats_state w' =
          apply_writes (terminal_writes (stats_state ?w0) (\<not> isl out)
            (1 + int (invocations body) - 1)) (stats_state ?w0)"
    by blast
  have b': "trace w' =
      trace w @ SetStat TotalOperations (counter (stats_state w) TotalOperations + 1)
        # body @ terminal_writes (stats_state w) (\<not> isl out) (int (invocations body))"
    using b(1) by (simp add: set_stat_effect terminal_writes_after_total)
  have st': "stats_state w' =
      apply_writes (terminal_writes (stats_state w) (\<not> isl out) (int (invocations body)))
        (state_set (stats_state w) TotalOperations
           (counter (stats_state w) TotalOperations + 1))"
    using b(5) by (simp add: set_stat_effect terminal_writes_after_total)
  from b' st' b(2,3,4) show ?thesis by blast
qed

text \<open>
  Claim C8, at failing inputs. \<open>retry\<close> accepts any number as \<open>maxAttempts\<close>. With 0 the
  loop body never runs; with 2.5 the test \<open>attempt === maxAttempts\<close> never holds, so the
  call invokes twice, sleeps after its last invocation and leaves the loop. Either call
  ends in the error "Unexpected retry loop completion", and none of
  \<open>successfulOperations\<close>, \<open>failedOperations\<close>, \<open>totalRetries\<close> is written.
\<close>

theorem terminal_counters_skipped:
  "maxAttempts zero_budget_props = 0
   \<and> fst (retry zero_budget_props flaky_operation None example_world) =
       Inl ''[retry] Unexpected retry loop completion''
   \<and> trace (snd (retry zero_budget_props flaky_operation None example_world)) =
       [SetStat TotalOperations 1]
   \<and> maxAttempts half_budget_props = 5 / 2
   \<and> fst (retry half_budget_props timeout_operation None example_world) =
       Inl ''[retry] Unexpected retry loop completion''
   \<and> trace (snd (retry half_budget_props timeout_operation None example_world)) =
       [SetStat TotalOperations 1, Invoke, Sleep 100, Invoke, Sleep 200]"
  by (simp add: run_simps flaky_operation_def timeout_operation_def loop_completion_message_def
      dna_id_def)

section \<open>Fail-fast on a non-retryable error\<close>

text \<open>
  Claim C3, amended. For every \<open>maxAttempts \<ge> 1\<close>, a call whose operation fails at its
  first invocation with the message "Invalid authentication credentials" and with no
  retryable code invokes the operation exactly once, never sleeps, and throws: the
  non-retryable error when \<open>maxAttempts \<ge> 2\<close>, the exhausted error when \<open>maxAttempts = 1\<close>
  (the test for the last attempt comes first).
\<close>

theorem fail_fast_on_non_retryable:
  assumes "1 \<le> maxAttempts (mergeOptions props customOptions)"
    and "fst (operation (op_state w)) = Inl t"
    and "message (to_Error t) = ''Invalid authentication credentials''"
    and "\<forall>c. code (to_Error t) = Some c \<longrightarrow> c \<notin> set (retryableErrors props)"
  shows "\<exists>w'. retry props operation customOptions w =
           (Inl (if maxAttempts (mergeOptions props customOptions) = 1
                 then exhausted_message 1 (to_Error t) [to_Error t]
                 else non_retryable_message (to_Error t)), w')
       \<and> trace w' = trace w @
           [SetStat TotalOperations (counter (stats_state w) TotalOperations + 1),
            Invoke,
            SetStat FailedOperations (counter (stats_state w) FailedOperations + 1),
            SetStat TotalRetries (counter (stats_state w) TotalRetries + 0)]"
proof -
  let ?config = "mergeOptions props customOptions"
  let ?w0 = "set_stat TotalOperations (counter (stats_state w) TotalOperations + 1) w"
  obtain x w1 where inv: "invoke operation ?w0 = (x, w1)" by (cases "invoke operation ?w0")
  from invoke_effect(1) [OF inv] assms(2) have inv': "invoke operation ?w0 = (Inl t, w1)"
    using inv by (simp add: set_stat_effect)
  have low: "toLowerCase ''Invalid authentication credentials'' =
      ''invalid authentication credentials''"
    by code_simp
  have nr: "\<not> isRetryableError props (to_Error t)"
    using assms(4) by (auto simp: isRetryableError_def assms(3) low retryablePatterns_def
        split: option.splits)
  have tr: "trace w1 = trace w @
      [SetStat TotalOperations (counter (stats_state w) TotalOperations + 1), Invoke]"
    and st: "stats_state w1 = state_set (stats_state w) TotalOperations
      (counter (stats_state w) TotalOperations + 1)"
    using invoke_effect(3,4) [OF inv'] by (simp_all add: set_stat_effect)
  show ?thesis
  proof (cases "maxAttempts ?config = 1")
    case True
    then have eq: "of_int 1 = maxAttempts ?config" by simp
    from retry_loop_exhausted [OF eq inv', of props "[]"] True show ?thesis
      by (simp add: retry_unfold set_stat_effect tr st counter_state_set)
  next
    case False
    with assms(1) have lt: "of_int 1 < maxAttempts ?config" by simp
    from retry_loop_non_retryable [OF lt inv' nr, of "[]"] False show ?thesis
      by (simp add: retry_unfold set_stat_effect tr st counter_state_set)
  qed
qed

theorem fail_fast_on_non_retryable_witness:
  "1 \<le> maxAttempts (mergeOptions (fst (create emptyConfig)) None)
   \<and> (\<exists>w'. retry (fst (create emptyConfig)) auth_operation None example_world =
          (Inl ''[retry] Non-retryable error: Invalid authentication credentials'', w')
        \<and> trace w' = [SetStat TotalOperations 1, Invoke, SetStat FailedOperations 1,
                        SetStat TotalRetries 0])"
proof -
  let ?e = "\<lparr>message = ''Invalid authentication credentials'', code = None\<rparr>"
  have h1: "1 \<le> maxAttempts (mergeOptions (fst (create emptyConfig)) None)" by code_simp
  have h2: "fst (auth_operation (op_state example_world)) = Inl (ErrorObject ?e)"
    by (simp add: auth_operation_def)
  have h3: "message (to_Error (ErrorObject ?e)) = ''Invalid authentication credentials''"
    by simp
  have h4: "\<forall>c. code (to_Error (ErrorObject ?e)) = Some c \<longrightarrow>
      c \<notin> set (retryableErrors (fst (create emptyConfig)))"
    by simp
  have m: "maxAttempts (mergeOptions (fst (create emptyConfig)) None) \<noteq> 1" by code_simp
  have c0: "counter (stats_state example_world) k = 0" for k
    by (cases k) (simp_all add: example_world_def create_def initialState_def counter_def
        state_get_def nullish_def)
  have t0: "trace example_world = []" by (simp add: example_world_def)
  from fail_fast_on_non_retryable [where operation = auth_operation and w = example_world
      and t = "ErrorObject ?e" and props = "fst (create emptyConfig)" and customOptions = None,
      OF h1 h2 h3 h4] h1
  show ?thesis
    by (simp add: m c0 t0 non_retryable_message_def dna_id_def)
qed

theorem fail_fast_on_non_retryable_counterexample:
  "maxAttempts (mergeOptions (fst (create (emptyConfig\<lparr>cfg_maxAttempts := Some 1\<rparr>))) None) = 1
   \<and> fst (retry (fst (create (emptyConfig\<lparr>cfg_maxAttempts := Some 1\<rparr>)))
          auth_operation None example_world) =
       Inl ''[retry] Operation failed after 1 attempts. Last error: Invalid authentication credentials. All errors: Invalid authentication credentials''
   \<and> fst (retry (fst (create (emptyConfig\<lparr>cfg_maxAttempts := Some 1\<rparr>)))
          auth_operation None example_world) \<noteq>
       Inl (non_retryable_message
              \<lparr>message = ''Invalid authentication credentials'', code = None\<rparr>)"
  by code_simp

section \<open>Snapshots\<close>

text \<open>
  Claim C9. Two calls of \<open>getStats\<close> with no \<open>retry\<close> between them return equal
  snapshots and leave the world as it was; a snapshot holds the counters as they are at
  the call, so after a further \<open>retry\<close> the next snapshot counts one more operation.
\<close>

theorem getStats_snapshot:
  assumes "getStats props w = (s1, w1)" and "getStats props w1 = (s2, w2)"
  shows "s2 = s1 \<and> w1 = w \<and> w2 = w
    \<and> totalOperations s1 = counter (stats_state w) TotalOperations
    \<and> totalRetries s1 = counter (stats_state w) TotalRetries
    \<and> successfulOperations s1 = counter (stats_state w) SuccessfulOperations
    \<and> failedOperations s1 = counter (stats_state w) FailedOperations
    \<and> totalOperations (fst (getStats props (snd (retry props operation customOptions w)))) =
        totalOperations s1 + 1"
proof -
  have t: "totalOperations (fst (getStats props w'')) = counter (stats_state w'') TotalOperations"
    for w'' :: "'a world"
    by (simp add: getStats_def counter_def Let_def)
  from assms have "w1 = w" "w2 = w" "s2 = s1"
    by (auto simp: getStats_def Let_def)
  moreover from assms(1) have "totalOperations s1 = counter (stats_state w) TotalOperations"
    "totalRetries s1 = counter (stats_state w) TotalRetries"
    "successfulOperations s1 = counter (stats_state w) SuccessfulOperations"
    "failedOperations s1 = counter (stats_state w) FailedOperations"
    by (auto simp: getStats_def Let_def counter_def)
  ultimately show ?thesis
    using retry_total_operations [of props operation customOptions w] by (simp add: t)
qed

theorem getStats_snapshot_witness:
  "fst (getStats no_jitter_props
          (snd (retry no_jitter_props flaky_operation None example_world))) =
   fst (getStats no_jitter_props
          (snd (getStats no_jitter_props
                  (snd (retry no_jitter_props flaky_operation None example_world)))))
   \<and> totalOperations (fst (getStats no_jitter_props
          (snd (retry no_jitter_props flaky_operation None example_world)))) = 1
   \<and> totalOperations (fst (getStats no_jitter_props
          (snd (retry no_jitter_props timeout_operation None
             (snd (retry no_jitter_props flaky_operation None example_world)))))) = 2"
proof -
  let ?w = "snd (retry no_jitter_props flaky_operation None example_world)"
  let ?g = "getStats no_jitter_props ?w"
  have h1: "?g = (fst ?g, snd ?g)" by simp
  have h2: "getStats no_jitter_props (snd ?g) =
      (fst (getStats no_jitter_props (snd ?g)), snd (getStats no_jitter_props (snd ?g)))"
    by simp
  have c: "counter (stats_state ?w) TotalOperations = 1" by (simp add: flaky_run)
  from getStats_snapshot [OF h1 h2, of timeout_operation None] show ?thesis
    by (simp add: c)
qed

section \<open>An attempt budget below one\<close>

text \<open>
  Claim C10. When the effective \<open>maxAttempts\<close> is below 1, \<open>retry\<close> never invokes the
  operation, writes \<open>totalOperations\<close> (one more than before) and nothing else, and throws
  "Unexpected retry loop completion"; \<open>successfulOperations\<close>, \<open>failedOperations\<close> and
  \<open>totalRetries\<close> keep their values, so \<open>totalOperations = successfulOperations +
  failedOperations\<close> no longer holds if it held before. Neither \<open>create\<close> nor
  \<open>mergeOptions\<close> rejects such a value: any \<open>m\<close> given as \<open>maxAttempts\<close> is taken as it is.
\<close>

theorem fallthrough_below_one_attempt:
  assumes "maxAttempts (mergeOptions props customOptions) < 1"
  shows "\<exists>w'. retry props operation customOptions w = (Inl loop_completion_message, w')
    \<and> trace w' = trace w @ [SetStat TotalOperations (counter (stats_state w) TotalOperations + 1)]
    \<and> invocations (trace w') = invocations (trace w)
    \<and> op_state w' = op_state w
    \<and> counter (stats_state w') TotalOperations = counter (stats_state w) TotalOperations + 1
    \<and> counter (stats_state w') SuccessfulOperations = counter (stats_state w) SuccessfulOperations
    \<and> counter (stats_state w') FailedOperations = counter (stats_state w) FailedOperations
    \<and> counter (stats_state w') TotalRetries = counter (stats_state w) TotalRetries
    \<and> (counter (stats_state w) TotalOperations =
          counter (stats_state w) SuccessfulOperations + counter (stats_state w) FailedOperations
        \<longrightarrow> counter (stats_state w') TotalOperations \<noteq>
          counter (stats_state w') SuccessfulOperations + counter (stats_state w') FailedOperations)
    \<and> maxAttempts (mergeOptions props (Some (c\<lparr>cfg_maxAttempts := Some m\<rparr>))) = m
    \<and> maxAttempts (fst (create (c\<lparr>cfg_maxAttempts := Some m\<rparr>))) = m"
proof -
  have "retry props operation customOptions w =
      (Inl loop_completion_message,
       set_stat TotalOperations (counter (stats_state w) TotalOperations + 1) w)"
    using assms by (simp add: retry_unfold retry_loop_done)
  then show ?thesis
    by (simp add: set_stat_effect counter_state_set invocations_def mergeOptions_def create_def
        nullish_def)
qed

theorem fallthrough_below_one_attempt_witness:
  "maxAttempts (mergeOptions (fst (create emptyConfig))
      (Some (emptyConfig\<lparr>cfg_maxAttempts := Some 0\<rparr>))) < 1
   \<and> (\<exists>w'. retry (fst (create emptyConfig)) timeout_operation
          (Some (emptyConfig\<lparr>cfg_maxAttempts := Some 0\<rparr>)) example_world =
          (Inl ''[retry] Unexpected retry loop completion'', w')
        \<and> trace w' = [SetStat TotalOperations 1]
        \<and> counter (stats_state w') TotalOperations = 1
        \<and> counter (stats_state w') SuccessfulOperations = 0
        \<and> counter (stats_state w') FailedOperations = 0
        \<and> counter (stats_state w') TotalRetries = 0)"
proof -
  let ?props = "fst (create emptyConfig)"
  let ?custom = "Some (emptyConfig\<lparr>cfg_maxAttempts := Some 0\<rparr>)"
  have h: "maxAttempts (mergeOptions ?props ?custom) < 1"
    by (simp add: mergeOptions_def nullish_def)
  have c0: "counter (stats_state example_world) k = 0" for k
    by (cases k) (simp_all add: example_world_def create_def initialState_def counter_def
        state_get_def nullish_def)
  have t0: "trace example_world = []" by (simp add: example_world_def)
  from fallthrough_below_one_attempt [OF h, where operation = timeout_operation
      and w = example_world and c = emptyConfig and m = 0] h
  show ?thesis
    by (auto simp: c0 t0 loop_completion_message_def dna_id_def)
qed

section \<open>What the classifier accepts\<close>

lemma str_includes_sublist: "str_includes s p \<longleftrightarrow> sublist p s"
  by (induction s) (simp_all add: sublist_Cons_right)

text \<open>
  Claim C6, amended. \<open>isRetryableError\<close> returns true if and only if the error has a
  non-empty \<open>code\<close> that is a member of the instance's \<open>retryableErrors\<close>, or its
  lowercased message contains one of the sixteen fixed substrings. An empty code is
  skipped by the guard \<open>code && ...\<close>, also when the set holds the empty string.
\<close>

theorem isRetryableError_iff:
  "isRetryableError props error \<longleftrightarrow>
     (\<exists>c. code error = Some c \<and> c \<noteq> [] \<and> c \<in> set (retryableErrors props))
   \<or> (\<exists>p \<in> {''network'', ''timeout'', ''connection'', ''reset'', ''refused'', ''unreachable'',
              ''temporarily'', ''temporary'', ''rate limit'', ''5'', ''429'', ''502'', ''503'',
              ''504'', ''unavailable'', ''service''}.
         sublist p (toLowerCase (message error)))"
proof -
  have "set retryablePatterns =
      {''network'', ''timeout'', ''connection'', ''reset'', ''refused'', ''unreachable'',
       ''temporarily'', ''temporary'', ''rate limit'', ''5'', ''429'', ''502'', ''503'',
       ''504'', ''unavailable'', ''service''}"
    unfolding retryablePatterns_def by (simp only: list.set)
  then show ?thesis
    unfolding isRetryableError_def Let_def list_ex_iff str_includes_sublist
    by (cases "code error") auto
qed

theorem isRetryableError_iff_witness:
  "isRetryableError (fst (create emptyConfig))
     \<lparr>message = ''HTTP 503: Service Unavailable'', code = None\<rparr>
   \<and> \<not> isRetryableError (fst (create emptyConfig))
     \<lparr>message = ''Invalid input - not retryable'', code = Some ''EINVAL''\<rparr>"
proof -
  have a: "sublist ''503'' (toLowerCase ''HTTP 503: Service Unavailable'')" by code_simp
  have b: "\<not> list_ex (\<lambda>p. sublist p (toLowerCase ''Invalid input - not retryable''))
      [''network'', ''timeout'', ''connection'', ''reset'', ''refused'', ''unreachable'',
       ''temporarily'', ''temporary'', ''rate limit'', ''5'', ''429'', ''502'', ''503'',
       ''504'', ''unavailable'', ''service'']"
    by code_simp
  have c: "''EINVAL'' \<notin> set (retryableErrors (fst (create emptyConfig)))" by code_simp
  have "isRetryableError (fst (create emptyConfig))
     \<lparr>message = ''HTTP 503: Service Unavailable'', code = None\<rparr>"
    unfolding isRetryableError_iff using a by simp
  moreover have "\<not> isRetryableError (fst (create emptyConfig))
     \<lparr>message = ''Invalid input - not retryable'', code = Some ''EINVAL''\<rparr>"
    unfolding isRetryableError_iff using b c by (simp add: list_ex_iff)
  ultimately show ?thesis by simp
qed

theorem isRetryableError_iff_counterexample:
  "code \<lparr>message = ''bad'', code = Some []\<rparr> = Some []
   \<and> [] \<in> set (retryableErrors empty_code_props)
   \<and> \<not> isRetryableError empty_code_props \<lparr>message = ''bad'', code = Some []\<rparr>"
  by code_simp

section \<open>Overrides of a call\<close>

lemma calculateDelay_ignores_config:
  "calculateDelay props attempt config w = calculateDelay props attempt config' w"
  by (simp add: calculateDelay_def)

text \<open>
  Claim C2, at a failing input. \<open>mergeOptions\<close> overlays the overrides on the props, but
  \<open>calculateDelay\<close> and \<open>isRetryableError\<close> read \<open>this.props\<close>: with \<open>baseDelay\<close>
  overridden to 10 on an instance with \<open>baseDelay = 100\<close> the call sleeps 100, and an
  error whose code is retryable only by the override is thrown as non-retryable.
\<close>

theorem overrides_not_used:
  "baseDelay (mergeOptions no_jitter_props
      (Some (emptyConfig\<lparr>cfg_maxAttempts := Some 2, cfg_baseDelay := Some 10\<rparr>))) = 10
   \<and> trace (snd (retry no_jitter_props timeout_operation
        (Some (emptyConfig\<lparr>cfg_maxAttempts := Some 2, cfg_baseDelay := Some 10\<rparr>))
        example_world)) =
       [SetStat TotalOperations 1, Invoke, Sleep 100, Invoke,
        SetStat FailedOperations 1, SetStat TotalRetries 1]
   \<and> retryableErrors (mergeOptions no_jitter_props
        (Some (emptyConfig\<lparr>cfg_retryableErrors := Some [''EAUTH'']\<rparr>))) = [''EAUTH'']
   \<and> fst (retry no_jitter_props eauth_operation
        (Some (emptyConfig\<lparr>cfg_retryableErrors := Some [''EAUTH'']\<rparr>)) example_world) =
       Inl ''[retry] Non-retryable error: denied''"
  by (simp add: run_simps mergeOptions_def emptyConfig_def timeout_operation_def
      eauth_operation_def non_retryable_message_def dna_id_def)

section \<open>Derived statistics\<close>

lemma getStats_unit_derived:
  "successRate (fst (getStats_unit props w)) =
     (if counter (stats_state w) TotalOperations > 0
      then of_int (counter (stats_state w) SuccessfulOperations)
           / of_int (counter (stats_state w) TotalOperations) else 0)"
  "averageAttempts (fst (getStats_unit props w)) =
     (if counter (stats_state w) TotalOperations > 0
      then of_int (counter (stats_state w) TotalOperations + counter (stats_state w) TotalRetries)
           / of_int (counter (stats_state w) TotalOperations) else 0)"
  by (simp_all add: getStats_unit_def counter_def Let_def)

lemma getStats_successRate:
  "successRate (fst (getStats props w)) =
     (if counter (stats_state w) TotalOperations = 0
      then of_int (counter (stats_state w) SuccessfulOperations)
      else of_int (counter (stats_state w) SuccessfulOperations)
           / of_int (counter (stats_state w) TotalOperations))"
  by (auto simp: getStats_def counter_def Let_def or_else_def nullish_def state_get_def
      split: option.splits)

lemma getStats_averageAttempts:
  "averageAttempts (fst (getStats props w)) = of_int (counter (stats_state w) AverageAttempts)"
  by (simp add: getStats_def counter_def Let_def)

text \<open>
  Claim C7, at a failing input. After one operation that took three attempts
  (\<open>totalOperations = 1\<close>, \<open>totalRetries = 2\<close>) \<open>getStats\<close> of the unit reports
  \<open>averageAttempts = 0\<close>, not \<open>(1 + 2) / 1\<close>: it reads the key \<open>averageAttempts\<close> of the
  \<open>State\<close> unit, which \<open>retry\<close> never writes. \<open>getStats\<close> of \<open>src/retry.unit.ts\<close>
  computes the quotient.
\<close>

theorem averageAttempts_stays_zero:
  "totalOperations (fst (getStats no_jitter_props
      (snd (retry no_jitter_props flaky_operation None example_world)))) = 1
   \<and> totalRetries (fst (getStats no_jitter_props
      (snd (retry no_jitter_props flaky_operation None example_world)))) = 2
   \<and> averageAttempts (fst (getStats no_jitter_props
      (snd (retry no_jitter_props flaky_operation None example_world)))) = 0
   \<and> averageAttempts (fst (getStats no_jitter_props
      (snd (retry no_jitter_props flaky_operation None example_world)))) \<noteq> (1 + 2) / 1
   \<and> averageAttempts (fst (getStats_unit no_jitter_props
      (snd (retry no_jitter_props flaky_operation None example_world)))) = (1 + 2) / 1"
proof -
  let ?w = "snd (retry no_jitter_props flaky_operation None example_world)"
  have "totalOperations (fst (getStats no_jitter_props ?w)) = counter (stats_state ?w) TotalOperations"
    "totalRetries (fst (getStats no_jitter_props ?w)) = counter (stats_state ?w) TotalRetries"
    by (simp_all add: getStats_def Let_def counter_def)
  then show ?thesis
    by (simp add: getStats_averageAttempts getStats_unit_derived flaky_run)
qed

section \<open>The delay without jitter\<close>

text \<open>
  Claim C4, amended. With jitter disabled, the delay computed after attempt \<open>a \<ge> 1\<close>
  takes no random draw and leaves the world as it was: it is
  \<open>min(baseDelay * backoffMultiplier ** (a-1), maxDelay)\<close> as double-precision arithmetic
  evaluates it, floored and not below 0. It equals the exact value of that expression
  whenever the power is exact and the exact product is an integer of magnitude at most
  \<open>2^53\<close>; for 100, 2 and 5000 the delays after attempts 1, 2, 3 are 100, 200, 400 (the
  witness). The rounded product can differ from the exact one.
\<close>

theorem delay_without_jitter:
  assumes "\<not> jitter props" and "1 \<le> attempt"
  shows "calculateDelay props attempt config w =
      (max 0 \<lfloor>min (fl (baseDelay props
          * exponentiate w (backoffMultiplier props) (attempt - 1))) (maxDelay props)\<rfloor>, w)
    \<and> (exponentiate w (backoffMultiplier props) (attempt - 1) =
          backoffMultiplier props ^ nat (attempt - 1)
       \<and> baseDelay props * backoffMultiplier props ^ nat (attempt - 1) = of_int k
       \<and> \<bar>k\<bar> \<le> 2 ^ 53
       \<longrightarrow> fst (calculateDelay props attempt config w) =
          max 0 \<lfloor>min (baseDelay props * backoffMultiplier props ^ nat (attempt - 1))
                  (maxDelay props)\<rfloor>)"
proof -
  have d: "calculateDelay props attempt config w =
      (max 0 \<lfloor>min (fl (baseDelay props
          * exponentiate w (backoffMultiplier props) (attempt - 1))) (maxDelay props)\<rfloor>, w)"
    using assms(1) by (simp add: calculateDelay_def js_times_def)
  have "fl (baseDelay props * exponentiate w (backoffMultiplier props) (attempt - 1)) =
      baseDelay props * backoffMultiplier props ^ nat (attempt - 1)"
    if "exponentiate w (backoffMultiplier props) (attempt - 1) =
          backoffMultiplier props ^ nat (attempt - 1)"
      and "baseDelay props * backoffMultiplier props ^ nat (attempt - 1) = of_int k"
      and "\<bar>k\<bar> \<le> 2 ^ 53"
    using that fl_of_int [of k] by simp
  with d show ?thesis by simp
qed

theorem delay_without_jitter_witness:
  "\<not> jitter no_jitter_props
   \<and> baseDelay no_jitter_props = 100 \<and> backoffMultiplier no_jitter_props = 2
   \<and> maxDelay no_jitter_props = 5000
   \<and> calculateDelay no_jitter_props 1 no_jitter_props example_world = (100, example_world)
   \<and> calculateDelay no_jitter_props 2 no_jitter_props example_world = (200, example_world)
   \<and> calculateDelay no_jitter_props 3 no_jitter_props example_world = (400, example_world)"
proof -
  have j: "\<not> jitter no_jitter_props"
    by (simp add: no_jitter_props_def create_def emptyConfig_def nullish_def)
  have v: "baseDelay no_jitter_props = 100" "backoffMultiplier no_jitter_props = 2"
    "maxDelay no_jitter_props = 5000"
    by (simp_all add: no_jitter_props_def create_def emptyConfig_def nullish_def)
  have p: "exponentiate example_world 2 (1 - 1) = 2 ^ nat (1 - 1)"
    "exponentiate example_world 2 (2 - 1) = 2 ^ nat (2 - 1)"
    "exponentiate example_world 2 (3 - 1) = 2 ^ nat (3 - 1)"
    by code_simp+
  have k: "(100::real) * 2 ^ nat (1 - 1) = of_int 100" "(100::real) * 2 ^ nat (2 - 1) = of_int 200"
    "(100::real) * 2 ^ nat (3 - 1) = of_int 400"
    by simp_all
  have b: "\<bar>100::int\<bar> \<le> 2 ^ 53" "\<bar>200::int\<bar> \<le> 2 ^ 53" "\<bar>400::int\<bar> \<le> 2 ^ 53"
    by simp_all
  have "calculateDelay no_jitter_props 1 no_jitter_props example_world = (100, example_world)"
    using delay_without_jitter [OF j, of 1 no_jitter_props example_world 100] p(1) k(1) b(1)
    by (simp add: v prod_eq_iff)
  moreover
  have "calculateDelay no_jitter_props 2 no_jitter_props example_world = (200, example_world)"
    using delay_without_jitter [OF j, of 2 no_jitter_props example_world 200] p(2) k(2) b(2)
    by (simp add: v prod_eq_iff)
  moreover
  have "calculateDelay no_jitter_props 3 no_jitter_props example_world = (400, example_world)"
    using delay_without_jitter [OF j, of 3 no_jitter_props example_world 400] p(3) k(3) b(3)
    by (simp add: v prod_eq_iff)
  ultimately show ?thesis using j v by simp
qed

theorem delay_without_jitter_counterexample:
  "\<not> jitter double_14_props \<and> baseDelay double_14_props = 100
   \<and> backoffMultiplier double_14_props = 6305039478318694 / 4503599627370496
   \<and> fl (backoffMultiplier double_14_props) = backoffMultiplier double_14_props
   \<and> fst (calculateDelay double_14_props 2 double_14_props example_world) = 140
   \<and> max 0 \<lfloor>min (baseDelay double_14_props * backoffMultiplier double_14_props ^ nat (2 - 1))
        (maxDelay double_14_props)\<rfloor> = 139"
  by code_simp

section \<open>The delay with jitter\<close>

text \<open>
  Claim C5, amended. With jitter enabled, \<open>baseDelay \<ge> 0\<close>, \<open>maxDelay \<ge> 0\<close>, a draw
  \<open>r\<close> in \<open>[0, 1)\<close> and a clamped value \<open>c\<close> of magnitude at most \<open>2^1000\<close>, the computed
  delay is \<open>max(0, floor(v))\<close>, where the jittered value \<open>v\<close>, as double-precision arithmetic
  evaluates it, lies within 5 per cent of \<open>c\<close> up to rounding (\<open>2^(-52)\<close> relative,
  \<open>2^(-1073)\<close> absolute). The delay is never negative; when the power is not negative it
  is at most \<open>1.05 c\<close> and greater than \<open>0.95 c - 1\<close>, up to the same rounding: the floor
  can take it below \<open>0.95 c\<close>.
\<close>

theorem jittered_delay_bounds:
  assumes "jitter props" and "1 \<le> attempt"
    and "0 \<le> baseDelay props" and "0 \<le> maxDelay props"
    and "random_draws w (draws_used w) = r" and "0 \<le> r" and "r < 1"
    and "\<bar>min (fl (baseDelay props * exponentiate w (backoffMultiplier props) (attempt - 1)))
           (maxDelay props)\<bar> \<le> 2 ^ 1000"
  shows "let c = min (fl (baseDelay props
                     * exponentiate w (backoffMultiplier props) (attempt - 1))) (maxDelay props);
             v = fl (c + fl (fl (r - 1 / 2) * fl (c * fl (1 / 10))));
             d = fst (calculateDelay props attempt config w)
         in d = max 0 \<lfloor>v\<rfloor> \<and> 0 \<le> d
          \<and> \<bar>v - c\<bar> \<le> (5 / 100 + 2 powi (- 52)) * \<bar>c\<bar> + 2 powi (- 1073)
          \<and> (0 \<le> exponentiate w (backoffMultiplier props) (attempt - 1) \<longrightarrow>
               0 \<le> c
             \<and> (95 / 100 - 2 powi (- 52)) * c - 2 powi (- 1073) - 1 < of_int d
             \<and> of_int d \<le> (105 / 100 + 2 powi (- 52)) * c + 2 powi (- 1073))"
proof -
  define c where "c = min (fl (baseDelay props
      * exponentiate w (backoffMultiplier props) (attempt - 1))) (maxDelay props)"
  define v where "v = fl (c + fl (fl (r - 1 / 2) * fl (c * fl (1 / 10))))"
  define d where "d = fst (calculateDelay props attempt config w)"
  define \<epsilon> :: real where "\<epsilon> = 2 powi (- 52)"
  define \<delta> :: real where "\<delta> = 2 powi (- 1073)"
  have eps: "0 \<le> \<epsilon>" "0 \<le> \<delta>" by (simp_all add: \<epsilon>_def \<delta>_def)
  have d: "d = max 0 \<lfloor>v\<rfloor>"
    using assms(1,5)
    by (simp add: d_def v_def c_def calculateDelay_def Math_random_def Let_def js_times_def
        js_plus_def js_minus_def)
  have near: "\<bar>v - c\<bar> \<le> (5 / 100 + \<epsilon>) * \<bar>c\<bar> + \<delta>"
    unfolding v_def \<epsilon>_def \<delta>_def by (rule jitter_error [OF assms(6,7)])
  have pos: "0 \<le> c \<and> (95 / 100 - \<epsilon>) * c - \<delta> - 1 < of_int d
      \<and> of_int d \<le> (105 / 100 + \<epsilon>) * c + \<delta>"
    if p: "0 \<le> exponentiate w (backoffMultiplier props) (attempt - 1)"
  proof -
    have "0 \<le> fl (baseDelay props * exponentiate w (backoffMultiplier props) (attempt - 1))"
      using assms(3) p by (intro fl_nonneg) simp
    then have c0: "0 \<le> c" using assms(4) by (simp add: c_def)
    define ec where "ec = \<epsilon> * c"
    have ec: "0 \<le> ec" using eps c0 by (simp add: ec_def)
    from near c0 have n: "\<bar>v - c\<bar> \<le> 5 / 100 * c + ec + \<delta>"
      by (simp add: ec_def algebra_simps)
    have lo: "95 / 100 * c - ec - \<delta> \<le> v" and hi: "v \<le> 105 / 100 * c + ec + \<delta>"
      using n by linarith+
    have 1: "v - 1 < of_int d" and 2: "of_int d \<le> max 0 v"
      unfolding d by (rule floor_at_zero_bounds)+
    have "of_int d \<le> 105 / 100 * c + ec + \<delta>"
      using 2 hi c0 ec eps by (simp add: max_def split: if_splits)
    moreover have "95 / 100 * c - ec - \<delta> - 1 < of_int d" using 1 lo by linarith
    ultimately show ?thesis using c0 by (simp add: ec_def algebra_simps)
  qed
  have "0 \<le> d" by (simp add: d)
  with d near pos show ?thesis
    unfolding Let_def c_def [symmetric] v_def [symmetric] d_def [symmetric]
      \<epsilon>_def [symmetric] \<delta>_def [symmetric]
    by blast
qed

theorem jittered_delay_bounds_counterexample:
  "jitter jitter_props \<and> baseDelay jitter_props = 10 \<and> maxDelay jitter_props = 5000
   \<and> random_draws example_world (draws_used example_world) = 1 / 4
   \<and> min (baseDelay jitter_props * backoffMultiplier jitter_props ^ nat (1 - 1))
        (maxDelay jitter_props) = 10
   \<and> fst (calculateDelay jitter_props 1 jitter_props example_world) = 9
   \<and> \<not> (95 / 100 * (10::real) \<le> 9)"
  by code_simp

theorem jittered_delay_bounds_witness:
  "jitter (fst (create emptyConfig)) \<and> (1::int) \<le> 2
   \<and> 0 \<le> baseDelay (fst (create emptyConfig)) \<and> 0 \<le> maxDelay (fst (create emptyConfig))
   \<and> random_draws example_world (draws_used example_world) = 1 / 4
   \<and> min (fl (baseDelay (fst (create emptyConfig))
          * exponentiate example_world (backoffMultiplier (fst (create emptyConfig))) (2 - 1)))
        (maxDelay (fst (create emptyConfig))) = 200
   \<and> fst (calculateDelay (fst (create emptyConfig)) 2 (fst (create emptyConfig)) example_world)
       = 195
   \<and> \<bar>195 - 200\<bar> \<le> (5 / 100 + 2 powi (- 52)) * \<bar>200 :: real\<bar> + 2 powi (- 1073)"
proof -
  let ?props = "fst (create emptyConfig)"
  have h1: "jitter ?props" by code_simp
  have h2: "(1::int) \<le> 2" by simp
  have h3: "0 \<le> baseDelay ?props" by code_simp
  have h4: "0 \<le> maxDelay ?props" by code_simp
  have h5: "random_draws example_world (draws_used example_world) = 1 / 4"
    by (simp add: example_world_def)
  have h6: "(0::real) \<le> 1 / 4" and h7: "(1 / 4 :: real) < 1" by simp_all
  have c: "min (fl (baseDelay ?props
      * exponentiate example_world (backoffMultiplier ?props) (2 - 1))) (maxDelay ?props) = 200"
    by code_simp
  have h8: "\<bar>min (fl (baseDelay ?props
      * exponentiate example_world (backoffMultiplier ?props) (2 - 1))) (maxDelay ?props)\<bar>
      \<le> 2 ^ 1000"
    unfolding c by simp
  have v: "fl (200 + fl (fl (1 / 4 - 1 / 2) * fl (200 * fl (1 / 10)))) = 195" by code_simp
  from jittered_delay_bounds [OF h1 h2 h3 h4 h5 h6 h7 h8, of ?props]
  have "fst (calculateDelay ?props 2 ?props example_world) = 195
      \<and> \<bar>195 - 200\<bar> \<le> (5 / 100 + 2 powi (- 52)) * \<bar>200 :: real\<bar> + 2 powi (- 1073)"
    unfolding Let_def c v by simp
  with h1 h2 h3 h4 h5 c show ?thesis by blast
qed

end
